theory Spec2Isabelle
  imports Main "HOL-Library.Word"
begin

unbundle bit_operations_syntax

section \<open>Python values used by the session manager\<close>

text \<open>
  The module under study is \<^verbatim>\<open>web/server/codechecker_server/session_manager.py\<close>.
  Exceptions are values: an operation that can raise returns a sum whose left
  injection is the exception, and the operations of the manager return an
  \<open>outcome\<close> that carries the manager as it is at the moment of the return or of
  the raise (a Python exception does not undo the assignments made before it).
\<close>

datatype py_exception =
  KeyError | ValueError | IndexError | AttributeError | UnboundLocalError | TypeError | ReError

text \<open>
  Time is discrete: a timestamp (a reading of \<^verbatim>\<open>datetime.now()\<close>) and a duration
  (\<^verbatim>\<open>session_lifetime\<close>, \<^verbatim>\<open>refresh_time\<close>) are integers in one unit, and
  \<^verbatim>\<open>(a - b).total_seconds()\<close> is the exact difference. Every operation takes the
  reading of the clock as its argument \<open>now\<close>; the readings made inside one call are
  taken to be equal.
\<close>

type_synonym timestamp = int

text \<open>\<^verbatim>\<open>s.split(sep, maxsplit)\<close> for a one-character separator.\<close>

fun py_split :: "char \<Rightarrow> nat \<Rightarrow> string \<Rightarrow> string list" where
  "py_split sep 0 s = [s]"
| "py_split sep (Suc n) s =
     (if sep \<in> set s
      then takeWhile (\<lambda>c. c \<noteq> sep) s # py_split sep n (tl (dropWhile (\<lambda>c. c \<noteq> sep) s))
      else [s])"

text \<open>\<^verbatim>\<open>s.split(sep)\<close>: no bound on the number of splits (there are at most
  \<open>length s\<close> separators).\<close>

definition py_split_all :: "char \<Rightarrow> string \<Rightarrow> string list" where
  "py_split_all sep s = py_split sep (length s) s"

text \<open>\<^verbatim>\<open>sep.join(xs)\<close>.\<close>

fun py_join :: "string \<Rightarrow> string list \<Rightarrow> string" where
  "py_join sep [] = []"
| "py_join sep [x] = x"
| "py_join sep (x # y # ys) = x @ sep @ py_join sep (y # ys)"

text \<open>Truthiness of an optional number: \<^verbatim>\<open>None\<close> and \<^verbatim>\<open>0\<close> are falsy.\<close>

fun truthy_num :: "int option \<Rightarrow> bool" where
  "truthy_num None = False"
| "truthy_num (Some n) = (n \<noteq> 0)"

section \<open>SHA-256, as \<^verbatim>\<open>hashlib.sha256(data).hexdigest()\<close> computes it\<close>

text \<open>
  The dictionary backend calls \<^verbatim>\<open>getattr(hashlib, algorithm)(password).hexdigest()\<close>.
  The algorithm named \<^verbatim>\<open>sha256\<close> is written out here (FIPS 180-4) over 32-bit
  words, on the bytes of the UTF-8 encoded password: a \<open>string\<close> is the list of
  these bytes.
\<close>

type_synonym w32 = "32 word"

definition rotr :: "nat \<Rightarrow> w32 \<Rightarrow> w32" where
  "rotr n x = (drop_bit n x) OR (push_bit (32 - n) x)"

definition K256 :: "w32 list" where
  "K256 =
    [0x428A2F98, 0x71374491, 0xB5C0FBCF, 0xE9B5DBA5,
     0x3956C25B, 0x59F111F1, 0x923F82A4, 0xAB1C5ED5,
     0xD807AA98, 0x12835B01, 0x243185BE, 0x550C7DC3,
     0x72BE5D74, 0x80DEB1FE, 0x9BDC06A7, 0xC19BF174,
     0xE49B69C1, 0xEFBE4786, 0x0FC19DC6, 0x240CA1CC,
     0x2DE92C6F, 0x4A7484AA, 0x5CB0A9DC, 0x76F988DA,
     0x983E5152, 0xA831C66D, 0xB00327C8, 0xBF597FC7,
     0xC6E00BF3, 0xD5A79147, 0x06CA6351, 0x14292967,
     0x27B70A85, 0x2E1B2138, 0x4D2C6DFC, 0x53380D13,
     0x650A7354, 0x766A0ABB, 0x81C2C92E, 0x92722C85,
     0xA2BFE8A1, 0xA81A664B, 0xC24B8B70, 0xC76C51A3,
     0xD192E819, 0xD6990624, 0xF40E3585, 0x106AA070,
     0x19A4C116, 0x1E376C08, 0x2748774C, 0x34B0BCB5,
     0x391C0CB3, 0x4ED8AA4A, 0x5B9CCA4F, 0x682E6FF3,
     0x748F82EE, 0x78A5636F, 0x84C87814, 0x8CC70208,
     0x90BEFFFA, 0xA4506CEB, 0xBEF9A3F7, 0xC67178F2]"

definition H256 :: "w32 list" where
  "H256 = [0x6A09E667, 0xBB67AE85, 0x3C6EF372, 0xA54FF53A,
           0x510E527F, 0x9B05688C, 0x1F83D9AB, 0x5BE0CD19]"

definition small_sigma0 :: "w32 \<Rightarrow> w32" where
  "small_sigma0 x = rotr 7 x XOR rotr 18 x XOR drop_bit 3 x"

definition small_sigma1 :: "w32 \<Rightarrow> w32" where
  "small_sigma1 x = rotr 17 x XOR rotr 19 x XOR drop_bit 10 x"

definition big_sigma0 :: "w32 \<Rightarrow> w32" where
  "big_sigma0 x = rotr 2 x XOR rotr 13 x XOR rotr 22 x"

definition big_sigma1 :: "w32 \<Rightarrow> w32" where
  "big_sigma1 x = rotr 6 x XOR rotr 11 x XOR rotr 25 x"

definition ch :: "w32 \<Rightarrow> w32 \<Rightarrow> w32 \<Rightarrow> w32" where
  "ch x y z = (x AND y) XOR (NOT x AND z)"

definition maj :: "w32 \<Rightarrow> w32 \<Rightarrow> w32 \<Rightarrow> w32" where
  "maj x y z = (x AND y) XOR (x AND z) XOR (y AND z)"

text \<open>The message schedule is kept newest word first: the head of the list is
  W(t-1), so W(t-2), W(t-7), W(t-15) and W(t-16) are at the indices 1, 6, 14 and 15 of
  a list that always holds at least 16 words.\<close>

fun schedule :: "nat \<Rightarrow> w32 list \<Rightarrow> w32 list" where
  "schedule 0 ws = ws"
| "schedule (Suc k) ws =
     schedule k ((small_sigma1 (ws ! 1) + ws ! 6 + small_sigma0 (ws ! 14) + ws ! 15) # ws)"

fun compress :: "w32 list \<Rightarrow> (w32 \<times> w32) list \<Rightarrow> w32 list" where
  "compress [a, b, c, d, e, f, g, h] ((k, w) # kws) =
     (let t1 = h + big_sigma1 e + ch e f g + k + w;
          t2 = big_sigma0 a + maj a b c
      in compress [t1 + t2, a, b, c, d + t1, e, f, g] kws)"
| "compress v _ = v"

definition be32 :: "8 word list \<Rightarrow> w32" where
  "be32 bs = foldl (\<lambda>acc b. push_bit 8 acc OR ucast b) 0 bs"

fun words_of :: "nat \<Rightarrow> 8 word list \<Rightarrow> w32 list" where
  "words_of 0 bs = []"
| "words_of (Suc n) bs = be32 (take 4 bs) # words_of n (drop 4 bs)"

definition process_block :: "w32 list \<Rightarrow> 8 word list \<Rightarrow> w32 list" where
  "process_block hs block =
     (let ws = rev (schedule 48 (rev (words_of 16 block)))
      in map2 (+) hs (compress hs (zip K256 ws)))"

fun process_blocks :: "nat \<Rightarrow> w32 list \<Rightarrow> 8 word list \<Rightarrow> w32 list" where
  "process_blocks 0 hs bs = hs"
| "process_blocks (Suc n) hs bs =
     process_blocks n (process_block hs (take 64 bs)) (drop 64 bs)"

definition pad :: "8 word list \<Rightarrow> 8 word list" where
  "pad bs =
     (let l = length bs;
          bits = (push_bit 3 (word_of_nat l) :: 64 word)
      in bs @ [0x80] @ replicate ((119 - l mod 64) mod 64) 0
            @ map (\<lambda>i. ucast (drop_bit (8 * (7 - i)) bits)) [0..<8])"

definition hex_digit :: "w32 \<Rightarrow> char" where
  "hex_digit w = ''0123456789abcdef'' ! unat (w AND 15)"

definition hex32 :: "w32 \<Rightarrow> string" where
  "hex32 w = map (\<lambda>i. hex_digit (drop_bit (4 * (7 - i)) w)) [0..<8]"

definition sha256_hexdigest :: "string \<Rightarrow> string" where
  "sha256_hexdigest s =
     (let bs = pad (map of_char s)
      in concat (map hex32 (process_blocks (length bs div 64) H256 bs)))"

section \<open>The session object (class \<^verbatim>\<open>_Session\<close>)\<close>

text \<open>
  The field \<open>database\<close> tells whether the session was given a database connection
  (\<^verbatim>\<open>self.__database\<close> is not \<^verbatim>\<open>None\<close>); the rows it reaches through that
  connection are those of the one persisted store, below.
\<close>

record session =
  token :: string
  user :: string
  groups :: "string list"
  session_lifetime :: int
  refresh_time :: "int option"
  root :: bool
  database :: bool
  last_access :: timestamp

text \<open>\<^verbatim>\<open>_Session.__init__\<close>: a falsy \<^verbatim>\<open>refresh_time\<close> becomes \<^verbatim>\<open>None\<close>, a
  missing \<^verbatim>\<open>last_access\<close> becomes the current time.\<close>

definition Session_init ::
  "string \<Rightarrow> string \<Rightarrow> string list \<Rightarrow> int \<Rightarrow> int option \<Rightarrow> bool \<Rightarrow> bool \<Rightarrow>
   timestamp option \<Rightarrow> timestamp \<Rightarrow> session" where
  "Session_init tok username grps lifetime refresh is_root db la now =
     \<lparr> token = tok, user = username, groups = grps,
       session_lifetime = lifetime,
       refresh_time = (if truthy_num refresh then refresh else None),
       root = is_root, database = db,
       last_access = (case la of Some t \<Rightarrow> t | None \<Rightarrow> now) \<rparr>"

definition is_refresh_time_expire :: "timestamp \<Rightarrow> session \<Rightarrow> bool" where
  "is_refresh_time_expire now s =
     (case refresh_time s of
        None \<Rightarrow> True
      | Some r \<Rightarrow> if r = 0 then True else now - last_access s > r)"

definition is_alive :: "timestamp \<Rightarrow> session \<Rightarrow> bool" where
  "is_alive now s = (now - last_access s \<le> session_lifetime s)"

section \<open>The persisted store\<close>

text \<open>
  The record classes \<^verbatim>\<open>SessionRecord\<close>, \<^verbatim>\<open>PersonalAccessToken\<close> and
  \<^verbatim>\<open>SystemPermission\<close> are declared in \<^verbatim>\<open>database/config_db_model.py\<close>; their
  columns are taken from the queries of the session manager. A table is the list
  of its rows, and \<^verbatim>\<open>.limit(1).one_or_none()\<close> is the first row that passes the
  filters. \<open>system_superusers\<close> holds the names of the \<^verbatim>\<open>SystemPermission\<close> rows
  whose permission is \<^verbatim>\<open>SUPERUSER.name\<close>. When \<open>db_raises\<close> holds, opening a
  transaction raises (the database is down), which every \<^verbatim>\<open>try\<close> block of the
  manager catches as \<^verbatim>\<open>Exception\<close>.
\<close>

record session_record =
  rec_token :: string
  rec_user_name :: string
  rec_groups :: string
  rec_last_access :: timestamp

record personal_access_token =
  pat_user_name :: string
  pat_token :: string
  pat_groups :: string
  pat_expiration :: timestamp

record persisted_store =
  db_raises :: bool
  auth_sessions :: "session_record list"
  personal_access_tokens :: "personal_access_token list"
  system_superusers :: "string list"

text \<open>Modelled from the spec: the constructor \<^verbatim>\<open>SessionRecord(token, user_name, groups)\<close>
  is not among the sources; the row it makes is
  \<open>{token, user_name, groups (delimited string), last_access}\<close>, issued at the time of
  the call.\<close>

definition SessionRecord :: "string \<Rightarrow> string \<Rightarrow> string \<Rightarrow> timestamp \<Rightarrow> session_record" where
  "SessionRecord tok user_name grps now =
     \<lparr> rec_token = tok, rec_user_name = user_name, rec_groups = grps, rec_last_access = now \<rparr>"

text \<open>Assignment to a column of the first row that passes a filter.\<close>

fun update_first :: "('a \<Rightarrow> bool) \<Rightarrow> ('a \<Rightarrow> 'a) \<Rightarrow> 'a list \<Rightarrow> 'a list" where
  "update_first P f [] = []"
| "update_first P f (x # xs) = (if P x then f x # xs else x # update_first P f xs)"

text \<open>
  \<^verbatim>\<open>_Session.revalidate\<close>. A session past its lifetime returns at once. Otherwise,
  with a database and the refresh time expired, \<open>last_access\<close> becomes the current
  time and the time is written to the session's row; a failure of the database
  is logged and the session keeps the new time.
\<close>

definition revalidate :: "timestamp \<Rightarrow> session \<Rightarrow> persisted_store \<Rightarrow> session \<times> persisted_store" where
  "revalidate now s db =
     (if \<not> is_alive now s then (s, db)
      else if database s \<and> is_refresh_time_expire now s then
        (s\<lparr>last_access := now\<rparr>,
         if db_raises db then db
         else db\<lparr>auth_sessions :=
                update_first (\<lambda>r. rec_user_name r = user s \<and> rec_token r = token s)
                  (\<lambda>r. r\<lparr>rec_last_access := now\<rparr>) (auth_sessions db)\<rparr>)
      else (s, db))"

text \<open>A sequence of \<^verbatim>\<open>revalidate\<close> calls on one session, at the given times.\<close>

fun revalidate_calls :: "timestamp list \<Rightarrow> session \<Rightarrow> persisted_store \<Rightarrow> session \<times> persisted_store" where
  "revalidate_calls [] s db = (s, db)"
| "revalidate_calls (t # ts) s db =
     (case revalidate t s db of (s', db') \<Rightarrow> revalidate_calls ts s' db')"

section \<open>The configuration\<close>

text \<open>
  The configuration is the JSON document of the server configuration file. The
  keys the session manager reads are the fields of the records below; a key that
  may be absent is an \<open>option\<close>, and \<^verbatim>\<open>d[key]\<close> on an absent key is the
  \<^verbatim>\<open>KeyError\<close> of the model. The values are taken to have the JSON types the
  manager expects of them. A dictionary whose order of iteration matters is an
  association list (Python iterates a \<^verbatim>\<open>dict\<close> in insertion order).
\<close>

record method_dictionary_config =
  dictionary_enabled :: bool
  auths :: "string list"
  dictionary_groups :: "(string \<times> string list) list option"

record method_pam_config =
  pam_enabled :: bool

text \<open>An entry of \<^verbatim>\<open>authorities\<close> is a configuration block that only
  \<^verbatim>\<open>cc_ldap\<close> reads; it is represented by its \<^verbatim>\<open>connection_url\<close>.\<close>

record method_ldap_config =
  ldap_enabled :: bool
  authorities :: "string list"

text \<open>
  An OAuth provider. \<open>params\<close> are its string-valued entries other than
  \<^verbatim>\<open>enabled\<close>, \<^verbatim>\<open>client_id\<close>, \<^verbatim>\<open>client_secret\<close>, \<^verbatim>\<open>template\<close>,
  \<^verbatim>\<open>variables\<close> and \<^verbatim>\<open>user_info_mapping\<close>, in the order of the dictionary
  (\<^verbatim>\<open>callback_url\<close>, \<^verbatim>\<open>authorization_url\<close>, \<^verbatim>\<open>token_url\<close>, ...). An absent
  \<^verbatim>\<open>enabled\<close> reads as false everywhere (\<^verbatim>\<open>provider.get('enabled')\<close>).
\<close>

record oauth_provider =
  provider_enabled :: bool
  client_id :: "string option"
  client_secret :: "string option"
  template :: "string option"
  variables :: "(string \<times> string) list"
  params :: "(string \<times> string) list"

record method_oauth_config =
  oauth_enabled :: bool
  shared_variables :: "(string \<times> string) list"
  providers :: "(string \<times> oauth_provider) list"

record regex_groups_config =
  regex_enabled :: bool
  regex_group_list :: "(string \<times> string list) list"

record auth_config =
  enabled :: "bool option"
  cfg_session_lifetime :: "int option"
  cfg_refresh_time :: "int option"
  logins_until_cleanup :: "int option"
  super_user :: "string option"
  regex_groups :: "regex_groups_config option"
  method_dictionary :: "method_dictionary_config option"
  method_pam :: "method_pam_config option"
  method_ldap :: "method_ldap_config option"
  method_oauth :: "method_oauth_config option"

record store_limit =
  failure_zip_size :: "int option"
  compilation_database_size :: "int option"

record store_config_block =
  analysis_statistics_dir :: "string option"
  limit :: "store_limit option"

text \<open>The document as \<^verbatim>\<open>load_json(configuration_file, {})\<close> returns it: the empty
  dictionary when the file is empty or cannot be parsed. \<open>other_keys\<close> are the keys
  of the document that the code below does not read (\<^verbatim>\<open>worker_processes\<close>,
  \<^verbatim>\<open>keepalive\<close>, ...).\<close>

record server_config =
  cfg_max_run_count :: "int option"
  cfg_store :: "store_config_block option"
  authentication :: "auth_config option"
  other_keys :: "string list"

definition empty_store_block :: store_config_block where
  "empty_store_block = \<lparr> analysis_statistics_dir = None, limit = None \<rparr>"

text \<open>\<^verbatim>\<open>cfg_dict == {}\<close>\<close>

definition is_empty_dict :: "server_config \<Rightarrow> bool" where
  "is_empty_dict d =
     (cfg_max_run_count d = None \<and> cfg_store d = None \<and> authentication d = None
      \<and> other_keys d = [])"

section \<open>Collaborators\<close>

text \<open>
  What the module imports and does not define is a parameter of the model:
  the list \<^verbatim>\<open>UNSUPPORTED_METHODS\<close> (which depends on the libraries installed), the
  table \<^verbatim>\<open>OAUTH_TEMPLATES\<close> (its string-valued entries, in order), the
  functions of \<^verbatim>\<open>cc_pam\<close> and \<^verbatim>\<open>cc_ldap\<close>, the regular expressions of
  \<^verbatim>\<open>re\<close> (\<open>re_compiles p\<close>: \<^verbatim>\<open>re.compile(p)\<close> does not raise; \<open>re_search p s\<close>
  and \<open>re_match p s\<close>: the search or match of the compiled pattern is not
  \<^verbatim>\<open>None\<close>), \<^verbatim>\<open>str.format(**variables)\<close>, and the digests of
  \<^verbatim>\<open>hashlib\<close> other than \<^verbatim>\<open>sha256\<close> (\<open>None\<close>: no such attribute).
\<close>

datatype format_result = Formatted string | FormatKeyError string | FormatRaises py_exception

record collaborators =
  UNSUPPORTED_METHODS :: "string list"
  OAUTH_TEMPLATES :: "string \<Rightarrow> (string \<times> string) list option"
  pam_auth_user :: "string \<Rightarrow> string \<Rightarrow> bool"
  ldap_auth_user :: "string \<Rightarrow> string \<Rightarrow> string \<Rightarrow> bool"
  ldap_get_groups :: "string \<Rightarrow> string \<Rightarrow> string \<Rightarrow> string list"
  re_compiles :: "string \<Rightarrow> bool"
  re_search :: "string \<Rightarrow> string \<Rightarrow> bool"
  re_match :: "string \<Rightarrow> string \<Rightarrow> bool"
  str_format :: "string \<Rightarrow> (string \<times> string) list \<Rightarrow> format_result"
  other_digests :: "string \<Rightarrow> (string \<Rightarrow> string) option"

text \<open>\<^verbatim>\<open>getattr(hashlib, name)(data).hexdigest()\<close>, when \<^verbatim>\<open>hasattr(hashlib, name)\<close>.\<close>

definition hashlib :: "collaborators \<Rightarrow> string \<Rightarrow> (string \<Rightarrow> string) option" where
  "hashlib env name = (if name = ''sha256'' then Some sha256_hexdigest else other_digests env name)"

section \<open>The session manager (class \<^verbatim>\<open>SessionManager\<close>)\<close>

text \<open>
  The fields of the manager, and with them the persisted store that its
  \<^verbatim>\<open>database_connection\<close> opens transactions on (\<open>database_connection\<close> itself
  tells whether a connection is set).
\<close>

record manager =
  database_connection :: bool
  logins_since_prune :: int
  sessions :: "session list"
  max_run_count :: "int option"
  store_config :: store_config_block
  auth_cfg :: auth_config
  mgr_refresh_time :: "int option"
  regex_groups_enabled :: bool
  group_regexes_compiled :: "(string \<times> string list) list"
  store :: persisted_store

datatype 'a outcome = Returns 'a manager | Raises py_exception manager

text \<open>What \<^verbatim>\<open>create_session\<close> and \<^verbatim>\<open>get_session\<close> return: a session object,
  \<^verbatim>\<open>None\<close> or \<^verbatim>\<open>False\<close>.\<close>

datatype session_result = TheSession session | PyNone | PyFalse

text \<open>\<^verbatim>\<open>__is_method_enabled\<close>\<close>

definition method_flag :: "auth_config \<Rightarrow> string \<Rightarrow> bool option" where
  "method_flag cfg method =
     (if method = ''dictionary'' then map_option dictionary_enabled (method_dictionary cfg)
      else if method = ''pam'' then map_option pam_enabled (method_pam cfg)
      else if method = ''ldap'' then map_option ldap_enabled (method_ldap cfg)
      else if method = ''oauth'' then map_option oauth_enabled (method_oauth cfg)
      else None)"

definition is_method_enabled :: "collaborators \<Rightarrow> manager \<Rightarrow> string \<Rightarrow> bool" where
  "is_method_enabled env m method =
     (method \<notin> set (UNSUPPORTED_METHODS env) \<and> method_flag (auth_cfg m) method = Some True)"

text \<open>\<^verbatim>\<open>is_enabled\<close>: \<^verbatim>\<open>self.__auth_config.get('enabled')\<close>, read for its truth value.\<close>

definition is_enabled :: "manager \<Rightarrow> bool" where
  "is_enabled m = (enabled (auth_cfg m) = Some True)"

section \<open>Credential validators\<close>

text \<open>A validation object is a dictionary with the key \<^verbatim>\<open>username\<close> and, for every
  backend but PAM, the key \<^verbatim>\<open>groups\<close>. A validator returns one, \<^verbatim>\<open>None\<close> or
  \<^verbatim>\<open>False\<close>; only a validation object is truthy.\<close>

record validation =
  username :: string
  validation_groups :: "string list option"

datatype validator_result = Validated validation | NotChecked | Rejected

fun truthy_result :: "validator_result \<Rightarrow> bool" where
  "truthy_result (Validated v) = True"
| "truthy_result NotChecked = False"
| "truthy_result Rejected = False"

type_synonym validator_run = "py_exception + (validator_result \<times> manager)"

text \<open>\<^verbatim>\<open>__try_auth_token\<close>: the token of the first session row of that user and
  token, or \<^verbatim>\<open>None\<close>. The unpacking of the split is outside the \<^verbatim>\<open>try\<close>.\<close>

definition try_auth_token :: "manager \<Rightarrow> string \<Rightarrow> py_exception + string option" where
  "try_auth_token m auth_string =
     (if \<not> database_connection m then Inr None
      else case py_split (CHR '':'') 1 auth_string of
        [user_name, tok] \<Rightarrow>
          if db_raises (store m) then Inr None
          else (case find (\<lambda>r. rec_user_name r = user_name \<and> rec_token r = tok)
                       (auth_sessions (store m)) of
                  None \<Rightarrow> Inr None
                | Some r \<Rightarrow> Inr (Some (rec_token r)))
      | _ \<Rightarrow> Inl ValueError)"

text \<open>\<^verbatim>\<open>__try_personal_access_token\<close>. When the query raises, the exception is
  logged and the variable \<^verbatim>\<open>personal_access_token\<close> is read unassigned after the
  \<^verbatim>\<open>try\<close> statement.\<close>

definition try_personal_access_token :: "timestamp \<Rightarrow> manager \<Rightarrow> string \<Rightarrow> validator_run" where
  "try_personal_access_token now m auth_string =
     (if \<not> database_connection m then Inr (NotChecked, m)
      else case py_split (CHR '':'') 1 auth_string of
        [user_name, tok] \<Rightarrow>
          if db_raises (store m) then Inl UnboundLocalError
          else (case find (\<lambda>p. pat_user_name p = user_name \<and> pat_token p = tok)
                       (personal_access_tokens (store m)) of
                  None \<Rightarrow> Inr (Rejected, m)
                | Some p \<Rightarrow>
                    if pat_expiration p < now then Inr (Rejected, m)
                    else Inr (Validated \<lparr> username = pat_user_name p,
                                 validation_groups = Some (py_split_all (CHR '';'') (pat_groups p)) \<rparr>,
                              m))
      | _ \<Rightarrow> Inl ValueError)"

text \<open>\<^verbatim>\<open>__update_personal_access_token_groups\<close> and \<^verbatim>\<open>__update_groups\<close>: the group
  column of every row of the user; nothing without a connection or when the
  database raises.\<close>

definition update_personal_access_token_groups :: "manager \<Rightarrow> string \<Rightarrow> string list \<Rightarrow> manager" where
  "update_personal_access_token_groups m user_name grps =
     (if \<not> database_connection m \<or> db_raises (store m) then m
      else m\<lparr>store := (store m)\<lparr>personal_access_tokens :=
             map (\<lambda>p. if pat_user_name p = user_name
                       then p\<lparr>pat_groups := py_join '';'' grps\<rparr> else p)
               (personal_access_tokens (store m))\<rparr>\<rparr>)"

definition update_groups :: "manager \<Rightarrow> string \<Rightarrow> string list \<Rightarrow> manager" where
  "update_groups m user_name grps =
     (if \<not> database_connection m \<or> db_raises (store m) then m
      else m\<lparr>store := (store m)\<lparr>auth_sessions :=
             map (\<lambda>r. if rec_user_name r = user_name
                       then r\<lparr>rec_groups := py_join '';'' grps\<rparr> else r)
               (auth_sessions (store m))\<rparr>\<rparr>)"

text \<open>\<^verbatim>\<open>__try_auth_dictionary\<close>. The first configured entry of the user decides. An
  entry equal to the whole credential string is accepted as it is; otherwise the
  entry is read as \<^verbatim>\<open>username:hash:algorithm[:salt]\<close>. The two \<^verbatim>\<open>IndexError\<close>s
  on the split of the saved entry are caught; the read of the password,
  \<^verbatim>\<open>auth_string_split[1]\<close>, is not inside a \<^verbatim>\<open>try\<close>.\<close>

definition dictionary_accept :: "manager \<Rightarrow> method_dictionary_config \<Rightarrow> string \<Rightarrow> validator_run" where
  "dictionary_accept m method_config name =
     (let group_list =
            (case dictionary_groups method_config of
               None \<Rightarrow> []
             | Some g \<Rightarrow> (case map_of g name of None \<Rightarrow> [] | Some l \<Rightarrow> l))
      in Inr (Validated \<lparr> username = name, validation_groups = Some group_list \<rparr>,
              update_personal_access_token_groups m name group_list))"

definition try_auth_dictionary :: "collaborators \<Rightarrow> manager \<Rightarrow> string \<Rightarrow> validator_run" where
  "try_auth_dictionary env m auth_string =
     (case method_dictionary (auth_cfg m) of
        None \<Rightarrow> Inr (Rejected, m)
      | Some method_config \<Rightarrow>
          if \<not> is_method_enabled env m ''dictionary'' then Inr (Rejected, m)
          else
            let auth_string_split = py_split (CHR '':'') 1 auth_string;
                name = hd auth_string_split
            in case filter (\<lambda>auth. hd (py_split (CHR '':'') 1 auth) = name) (auths method_config) of
                 [] \<Rightarrow> Inr (Rejected, m)
               | saved_auth_string # _ \<Rightarrow>
                   if saved_auth_string \<noteq> auth_string then
                     let saved_auth_string_split = py_split (CHR '':'') 3 saved_auth_string
                     in if length saved_auth_string_split \<le> 2 then Inr (Rejected, m)
                        else case hashlib env (saved_auth_string_split ! 2) of
                          None \<Rightarrow> Inr (Rejected, m)
                        | Some hexdigest \<Rightarrow>
                            if length auth_string_split \<le> 1 then Inl IndexError
                            else
                              let password = auth_string_split ! 1;
                                  salted = (if length saved_auth_string_split \<le> 3 then password
                                            else password @ saved_auth_string_split ! 3)
                              in if saved_auth_string_split ! 1 \<noteq> hexdigest salted
                                 then Inr (Rejected, m)
                                 else dictionary_accept m method_config name
                   else dictionary_accept m method_config name)"

text \<open>\<^verbatim>\<open>__try_auth_pam\<close>: the validation object of PAM has no key \<^verbatim>\<open>groups\<close>.\<close>

definition try_auth_pam :: "collaborators \<Rightarrow> manager \<Rightarrow> string \<Rightarrow> validator_run" where
  "try_auth_pam env m auth_string =
     (if is_method_enabled env m ''pam'' then
        (case py_split (CHR '':'') 1 auth_string of
           [name, password] \<Rightarrow>
             if pam_auth_user env name password
             then Inr (Validated \<lparr> username = name, validation_groups = None \<rparr>, m)
             else Inr (Rejected, m)
         | _ \<Rightarrow> Inl ValueError)
      else Inr (Rejected, m))"

text \<open>\<^verbatim>\<open>__try_auth_ldap\<close>: the first authority that authenticates the user gives the
  groups, which are written to the session rows and to the personal access
  tokens of the user.\<close>

definition try_auth_ldap :: "collaborators \<Rightarrow> manager \<Rightarrow> string \<Rightarrow> validator_run" where
  "try_auth_ldap env m auth_string =
     (if is_method_enabled env m ''ldap'' then
        (case py_split (CHR '':'') 1 auth_string of
           [name, password] \<Rightarrow>
             (case find (\<lambda>ldap_conf. ldap_auth_user env ldap_conf name password)
                     (case method_ldap (auth_cfg m) of None \<Rightarrow> [] | Some c \<Rightarrow> authorities c) of
                None \<Rightarrow> Inr (Rejected, m)
              | Some ldap_conf \<Rightarrow>
                  let grps = ldap_get_groups env ldap_conf name password
                  in Inr (Validated \<lparr> username = name, validation_groups = Some grps \<rparr>,
                          update_personal_access_token_groups (update_groups m name grps) name grps))
         | _ \<Rightarrow> Inl ValueError)
      else Inr (Rejected, m))"

text \<open>\<^verbatim>\<open>__try_regex_groups\<close>: the names of the groups one of whose patterns is
  found in the user name (a Python \<^verbatim>\<open>set\<close>, here the list of the names in the
  order of the configuration).\<close>

definition try_regex_groups :: "collaborators \<Rightarrow> manager \<Rightarrow> string \<Rightarrow> string list" where
  "try_regex_groups env m name =
     (if \<not> regex_groups_enabled m then []
      else map fst (filter (\<lambda>(group_name, regex_list). list_ex (\<lambda>r. re_search env r name) regex_list)
                      (group_regexes_compiled m)))"

text \<open>Python's \<^verbatim>\<open>a or b\<close> on validator calls: \<open>b\<close> is called, on the manager as
  \<open>a\<close> left it, only when \<open>a\<close> returned a falsy value; an exception of \<open>a\<close> ends the
  chain.\<close>

definition or_else :: "validator_run \<Rightarrow> (manager \<Rightarrow> validator_run) \<Rightarrow> validator_run" where
  "or_else r next_validator =
     (case r of
        Inl e \<Rightarrow> Inl e
      | Inr (v, m) \<Rightarrow> if truthy_result v then Inr (v, m) else next_validator m)"

text \<open>\<^verbatim>\<open>__handle_validation\<close>. The groups of the regular expressions are added
  with \<^verbatim>\<open>list(set(validation['groups']) | extra_groups)\<close>, whose order Python
  leaves open: only the set of the resulting list is meaningful.\<close>

definition handle_validation :: "collaborators \<Rightarrow> timestamp \<Rightarrow> manager \<Rightarrow> string \<Rightarrow> validator_run" where
  "handle_validation env now m auth_string =
     (case or_else (or_else (or_else (try_personal_access_token now m auth_string)
                                (\<lambda>m. try_auth_dictionary env m auth_string))
                       (\<lambda>m. try_auth_pam env m auth_string))
             (\<lambda>m. try_auth_ldap env m auth_string) of
        Inl e \<Rightarrow> Inl e
      | Inr (Validated v, m') \<Rightarrow>
          let extra_groups = try_regex_groups env m' (username v)
          in if extra_groups \<noteq> [] then
               (case validation_groups v of
                  None \<Rightarrow> Inl KeyError
                | Some already_groups \<Rightarrow>
                    Inr (Validated (v\<lparr>validation_groups := Some (remdups (already_groups @ extra_groups))\<rparr>), m'))
             else Inr (Validated v, m')
      | Inr (_, m') \<Rightarrow> Inr (Rejected, m'))"

section \<open>Session lifecycle\<close>

text \<open>\<^verbatim>\<open>__is_root_user\<close>: the configured superuser, or a stored system permission.
  Without a connection the call of \<^verbatim>\<open>None\<close> raises inside the \<^verbatim>\<open>try\<close>, which
  gives \<^verbatim>\<open>False\<close> as a failing database does.\<close>

definition is_root_user :: "manager \<Rightarrow> string \<Rightarrow> bool" where
  "is_root_user m user_name =
     (if super_user (auth_cfg m) = Some user_name then True
      else if \<not> database_connection m \<or> db_raises (store m) then False
      else user_name \<in> set (system_superusers (store m)))"

text \<open>\<^verbatim>\<open>__create_local_session\<close>\<close>

definition create_local_session ::
  "manager \<Rightarrow> string \<Rightarrow> string \<Rightarrow> string list \<Rightarrow> bool \<Rightarrow> timestamp option \<Rightarrow> timestamp \<Rightarrow>
   py_exception + session" where
  "create_local_session m tok user_name grps is_root la now =
     (let is_root' = (if \<not> is_root then is_root_user m user_name else is_root)
      in case cfg_session_lifetime (auth_cfg m) of
           None \<Rightarrow> Inl KeyError
         | Some lifetime \<Rightarrow>
             Inr (Session_init tok user_name grps lifetime (mgr_refresh_time m) is_root'
                    (database_connection m) la now))"

text \<open>\<^verbatim>\<open>__get_local_session_from_db\<close>: a local session made from the first row of
  the token; \<^verbatim>\<open>None\<close> without a connection, without such a row, or when anything
  inside the \<^verbatim>\<open>try\<close> raises.\<close>

definition get_local_session_from_db :: "manager \<Rightarrow> string \<Rightarrow> timestamp \<Rightarrow> session option" where
  "get_local_session_from_db m tok now =
     (if \<not> database_connection m then None
      else if db_raises (store m) then None
      else case find (\<lambda>r. rec_token r = tok) (auth_sessions (store m)) of
             None \<Rightarrow> None
           | Some db_record \<Rightarrow>
               let user_name = rec_user_name db_record;
                   is_root = is_root_user m user_name;
                   grps = (if rec_groups db_record \<noteq> [] then py_split_all (CHR '';'') (rec_groups db_record)
                           else [])
               in case create_local_session m tok user_name grps is_root
                         (Some (rec_last_access db_record)) now of
                    Inl e \<Rightarrow> None
                  | Inr s \<Rightarrow> Some s)"

text \<open>\<^verbatim>\<open>invalidate_local_session\<close>: the first cached session of the token leaves the
  cache.\<close>

fun remove_token :: "string \<Rightarrow> session list \<Rightarrow> session list" where
  "remove_token tok [] = []"
| "remove_token tok (s # ss) = (if token s = tok then ss else s # remove_token tok ss)"

definition invalidate_local_session :: "manager \<Rightarrow> string \<Rightarrow> bool \<times> manager" where
  "invalidate_local_session m tok =
     (list_ex (\<lambda>s. token s = tok) (sessions m),
      m\<lparr>sessions := remove_token tok (sessions m)\<rparr>)"

text \<open>\<^verbatim>\<open>invalidate\<close>: the local removal, then the deletion of the rows of the token.
  A failure of the database is caught and gives \<^verbatim>\<open>False\<close> after the local removal.\<close>

definition invalidate :: "manager \<Rightarrow> string \<Rightarrow> bool \<times> manager" where
  "invalidate m tok =
     (let m' = snd (invalidate_local_session m tok)
      in if \<not> database_connection m' then (True, m')
         else if db_raises (store m') then (False, m')
         else (True, m'\<lparr>store := (store m')\<lparr>auth_sessions :=
                         filter (\<lambda>r. rec_token r \<noteq> tok) (auth_sessions (store m'))\<rparr>\<rparr>))"

text \<open>
  \<^verbatim>\<open>__cleanup_sessions\<close>. Each of its two loops is \<^verbatim>\<open>for s in self.__sessions\<close> with
  a body that removes from \<^verbatim>\<open>self.__sessions\<close>. Python's list iterator keeps an
  index into the list: at each step it stops if the index has reached the current
  length, and otherwise yields the element at the index and advances. The loops
  are therefore functions of the index and of the manager.
\<close>

function cleanup_refresh_expired :: "timestamp \<Rightarrow> nat \<Rightarrow> manager \<Rightarrow> manager" where
  "cleanup_refresh_expired now i m =
     (if i < length (sessions m) then
        (let s = sessions m ! i
         in cleanup_refresh_expired now (Suc i)
              (if is_refresh_time_expire now s then snd (invalidate_local_session m (token s)) else m))
      else m)"
  by pat_completeness auto
termination
proof (relation "measure (\<lambda>(now, i, m). length (sessions m) - i)")
  show "wf (measure (\<lambda>(now, i, m). length (sessions m) - i))" by simp
next
  fix now :: timestamp and i :: nat and m :: manager and s :: session
  assume "i < length (sessions m)"
  moreover have "length (remove_token tok ss) \<le> length ss" for tok ss
    by (induction ss) auto
  from this [of "token s" "sessions m"]
  have "length (remove_token (token s) (sessions m)) - Suc i \<le> length (sessions m) - Suc i"
    by (rule diff_le_mono)
  ultimately show "((now, Suc i,
            if is_refresh_time_expire now s then snd (invalidate_local_session m (token s)) else m),
           now, i, m) \<in> measure (\<lambda>(now, i, m). length (sessions m) - i)"
    by (auto simp: invalidate_local_session_def)
qed

declare cleanup_refresh_expired.simps [simp del]

function cleanup_dead :: "timestamp \<Rightarrow> nat \<Rightarrow> manager \<Rightarrow> manager" where
  "cleanup_dead now i m =
     (if i < length (sessions m) then
        (let s = sessions m ! i
         in cleanup_dead now (Suc i)
              (if \<not> is_alive now s then snd (invalidate m (token s)) else m))
      else m)"
  by pat_completeness auto
termination
proof (relation "measure (\<lambda>(now, i, m). length (sessions m) - i)")
  show "wf (measure (\<lambda>(now, i, m). length (sessions m) - i))" by simp
next
  fix now :: timestamp and i :: nat and m :: manager and s :: session
  assume "i < length (sessions m)"
  moreover have "length (remove_token tok ss) \<le> length ss" for tok ss
    by (induction ss) auto
  from this [of "token s" "sessions m"]
  have "length (remove_token (token s) (sessions m)) - Suc i \<le> length (sessions m) - Suc i"
    by (rule diff_le_mono)
  ultimately show "((now, Suc i, if \<not> is_alive now s then snd (invalidate m (token s)) else m),
           now, i, m) \<in> measure (\<lambda>(now, i, m). length (sessions m) - i)"
    by (auto simp: invalidate_def invalidate_local_session_def Let_def)
qed

declare cleanup_dead.simps [simp del]

definition cleanup_sessions :: "timestamp \<Rightarrow> manager \<Rightarrow> manager" where
  "cleanup_sessions now m =
     cleanup_dead now 0 (cleanup_refresh_expired now 0 (m\<lparr>logins_since_prune := 0\<rparr>))"

text \<open>
  \<^verbatim>\<open>create_session\<close>. \<open>new_token\<close> is the value that \<^verbatim>\<open>generate_session_token()\<close>
  returns when it is called.
\<close>

definition create_session ::
  "collaborators \<Rightarrow> timestamp \<Rightarrow> string \<Rightarrow> manager \<Rightarrow> string \<Rightarrow> session_result outcome" where
  "create_session env now new_token m auth_string =
     (case enabled (auth_cfg m) of
        None \<Rightarrow> Raises KeyError m
      | Some en \<Rightarrow>
        if \<not> en then Returns PyNone m
        else
          let m1 = m\<lparr>logins_since_prune := logins_since_prune m + 1\<rparr>
          in case logins_until_cleanup (auth_cfg m1) of
               None \<Rightarrow> Raises KeyError m1
             | Some n \<Rightarrow>
               let m2 = (if logins_since_prune m1 \<ge> n then cleanup_sessions now m1 else m1)
               in case try_auth_token m2 auth_string of
                    Inl e \<Rightarrow> Raises e m2
                  | Inr (Some auth_token) \<Rightarrow>
                      (case get_local_session_from_db m2 auth_token now of
                         None \<Rightarrow> Raises AttributeError m2
                       | Some local_session \<Rightarrow>
                           (case revalidate now local_session (store m2) of
                              (local_session', db') \<Rightarrow>
                                Returns (TheSession local_session')
                                  (m2\<lparr>store := db', sessions := sessions m2 @ [local_session']\<rparr>)))
                  | Inr None \<Rightarrow>
                      (case handle_validation env now m2 auth_string of
                         Inl e \<Rightarrow> Raises e m2
                       | Inr (Validated v, m3) \<Rightarrow>
                           let grps = (case validation_groups v of None \<Rightarrow> [] | Some g \<Rightarrow> g)
                           in (case create_local_session m3 new_token (username v) grps False None now of
                                 Inl e \<Rightarrow> Raises e m3
                               | Inr local_session \<Rightarrow>
                                   let m4 = m3\<lparr>sessions := sessions m3 @ [local_session]\<rparr>
                                   in Returns (TheSession local_session)
                                        (if database_connection m4 \<and> \<not> db_raises (store m4)
                                         then m4\<lparr>store := (store m4)\<lparr>auth_sessions :=
                                                  auth_sessions (store m4)
                                                  @ [SessionRecord new_token (username v)
                                                       (py_join '';'' grps) now]\<rparr>\<rparr>
                                         else m4))
                       | Inr (_, m3) \<Rightarrow> Returns PyFalse m3))"

text \<open>
  \<^verbatim>\<open>get_session\<close>. The loop returns at the first cached session that is alive
  and has the token, revalidated in place when its refresh time has expired.
\<close>

fun find_index_session :: "(session \<Rightarrow> bool) \<Rightarrow> session list \<Rightarrow> nat option" where
  "find_index_session P [] = None"
| "find_index_session P (s # ss) =
     (if P s then Some 0 else map_option Suc (find_index_session P ss))"

definition get_session :: "timestamp \<Rightarrow> manager \<Rightarrow> string \<Rightarrow> session_result outcome" where
  "get_session now m tok =
     (if \<not> is_enabled m then Returns PyNone m
      else case find_index_session (\<lambda>sess. is_alive now sess \<and> token sess = tok) (sessions m) of
        Some i \<Rightarrow>
          let sess = sessions m ! i
          in if is_refresh_time_expire now sess then
               (case revalidate now sess (store m) of
                  (sess', db') \<Rightarrow>
                    Returns (TheSession sess') (m\<lparr>sessions := (sessions m)[i := sess'], store := db'\<rparr>))
             else Returns (TheSession sess) m
      | None \<Rightarrow>
          (case get_local_session_from_db m tok now of
             Some local_session \<Rightarrow>
               if is_alive now local_session then
                 let m1 = m\<lparr>sessions := sessions m @ [local_session]\<rparr>
                 in if is_refresh_time_expire now local_session then
                      (case revalidate now local_session (store m1) of
                         (local_session', db') \<Rightarrow>
                           Returns (TheSession local_session')
                             (m1\<lparr>sessions := sessions m @ [local_session'], store := db'\<rparr>))
                    else Returns (TheSession local_session) m1
               else Returns PyNone (snd (invalidate m tok))
           | None \<Rightarrow> Returns PyNone (snd (invalidate m tok))))"

section \<open>OAuth provider configuration\<close>

text \<open>Operations of a Python \<^verbatim>\<open>dict\<close> kept as an association list in insertion
  order: \<^verbatim>\<open>d[k] = v\<close>, \<^verbatim>\<open>d.update(other)\<close>, \<^verbatim>\<open>del d[k]\<close> and
  \<^verbatim>\<open>d.setdefault(k, v)\<close>.\<close>

fun dict_set :: "'k \<Rightarrow> 'v \<Rightarrow> ('k \<times> 'v) list \<Rightarrow> ('k \<times> 'v) list" where
  "dict_set k v [] = [(k, v)]"
| "dict_set k v ((k', v') # kvs) =
     (if k' = k then (k, v) # kvs else (k', v') # dict_set k v kvs)"

fun dict_update :: "('k \<times> 'v) list \<Rightarrow> ('k \<times> 'v) list \<Rightarrow> ('k \<times> 'v) list" where
  "dict_update d [] = d"
| "dict_update d ((k, v) # other) = dict_update (dict_set k v d) other"

definition dict_del :: "'k \<Rightarrow> ('k \<times> 'v) list \<Rightarrow> ('k \<times> 'v) list" where
  "dict_del k d = filter (\<lambda>kv. fst kv \<noteq> k) d"

definition dict_setdefault :: "'k \<Rightarrow> 'v \<Rightarrow> ('k \<times> 'v) list \<Rightarrow> ('k \<times> 'v) list" where
  "dict_setdefault k v d = (if map_of d k = None then d @ [(k, v)] else d)"

fun dict_setdefaults :: "('k \<times> 'v) list \<Rightarrow> ('k \<times> 'v) list \<Rightarrow> ('k \<times> 'v) list" where
  "dict_setdefaults [] d = d"
| "dict_setdefaults ((k, v) # defaults) d = dict_setdefaults defaults (dict_setdefault k v d)"

text \<open>
  The pattern that \<^verbatim>\<open>check_callback_url_format\<close> compiles is
  \<^verbatim>\<open>^http(s|)://[a-zA-Z0-9.-_]+([:][0-9]{2,5})?(?<!/)/(?!/)login[/]OAuthLogin/NAME$\<close>
  where \<^verbatim>\<open>NAME\<close> is the provider name, pasted as it is. Its match against a URL
  is written out piece by piece for a provider name that has none of the
  metacharacters of a Python regular expression, so that the name stands for
  itself; for any other name the pattern is left to the collaborator \<^verbatim>\<open>re\<close>.
\<close>

definition in_range :: "char \<Rightarrow> char \<Rightarrow> char \<Rightarrow> bool" where
  "in_range lo hi c = ((of_char lo :: nat) \<le> of_char c \<and> (of_char c :: nat) \<le> of_char hi)"

text \<open>\<^verbatim>\<open>[a-zA-Z0-9.-_]\<close>: inside a character class \<^verbatim>\<open>.-_\<close> is the range from
  \<^verbatim>\<open>.\<close> to \<^verbatim>\<open>_\<close>, which holds \<^verbatim>\<open>/\<close>, \<^verbatim>\<open>:\<close> and \<^verbatim>\<open>@\<close> among others.\<close>

definition website_char :: "char \<Rightarrow> bool" where
  "website_char c =
     (in_range (CHR ''a'') (CHR ''z'') c \<or> in_range (CHR ''A'') (CHR ''Z'') c
      \<or> in_range (CHR ''0'') (CHR ''9'') c \<or> in_range (CHR ''.'') (CHR ''_'') c)"

text \<open>\<^verbatim>\<open>([:][0-9]{2,5})?\<close>\<close>

fun optional_port :: "string \<Rightarrow> bool" where
  "optional_port [] = True"
| "optional_port (c # ds) =
     (c = CHR '':'' \<and> 2 \<le> length ds \<and> length ds \<le> 5
      \<and> list_all (in_range (CHR ''0'') (CHR ''9'')) ds)"

text \<open>A string is matched by \<open>chars+port?\<close> when one of its splits gives a non-empty
  run of the characters and an optional port.\<close>

definition run_and_port :: "(char \<Rightarrow> bool) \<Rightarrow> string \<Rightarrow> bool" where
  "run_and_port chars w =
     list_ex (\<lambda>k. take k w \<noteq> [] \<and> list_all chars (take k w) \<and> optional_port (drop k w))
       [0..<Suc (length w)]"

text \<open>\<^verbatim>\<open>[a-zA-Z0-9.-_]+([:][0-9]{2,5})?(?<!/)\<close>: the lookbehind asks that the
  character before the position, the last one matched, is not \<^verbatim>\<open>/\<close>.\<close>

definition website :: "string \<Rightarrow> bool" where
  "website w = (w \<noteq> [] \<and> last w \<noteq> CHR ''/'' \<and> run_and_port website_char w)"

fun after_prefix :: "string \<Rightarrow> string \<Rightarrow> string option" where
  "after_prefix [] s = Some s"
| "after_prefix (p # ps) [] = None"
| "after_prefix (p # ps) (c # cs) = (if p = c then after_prefix ps cs else None)"

definition before_suffix :: "string \<Rightarrow> string \<Rightarrow> string option" where
  "before_suffix p s = map_option rev (after_prefix (rev p) (rev s))"

text \<open>
  The whole pattern, given what stands between \<^verbatim>\<open>://\<close> and the path: \<^verbatim>\<open>^http\<close>,
  then \<^verbatim>\<open>(s|)\<close>, then \<^verbatim>\<open>://\<close>, the website, and the literal rest
  \<^verbatim>\<open>/login/OAuthLogin/NAME\<close> up to \<^verbatim>\<open>$\<close>, which is the end of the string or the
  position before a newline that ends the string. The lookahead \<^verbatim>\<open>(?!/)\<close> stands
  before the \<^verbatim>\<open>l\<close> of \<^verbatim>\<open>login\<close> and always holds.
\<close>

definition url_matches :: "(string \<Rightarrow> bool) \<Rightarrow> string \<Rightarrow> string \<Rightarrow> bool" where
  "url_matches site provider_name url =
     (case after_prefix ''http'' url of
        None \<Rightarrow> False
      | Some r \<Rightarrow>
          list_ex (\<lambda>r'.
              case after_prefix ''://'' r' of
                None \<Rightarrow> False
              | Some rest \<Rightarrow>
                  list_ex (\<lambda>ending.
                      case before_suffix (''/login/OAuthLogin/'' @ provider_name @ ending) rest of
                        None \<Rightarrow> False
                      | Some w \<Rightarrow> site w)
                    [[], [CHR 0x0A]])
            ((case after_prefix ''s'' r of None \<Rightarrow> [] | Some r' \<Rightarrow> [r']) @ [r]))"

definition callback_url_matches :: "string \<Rightarrow> string \<Rightarrow> bool" where
  "callback_url_matches provider_name url = url_matches website provider_name url"

definition regex_metacharacters :: string where
  "regex_metacharacters = ''.^$*+?{}[]|()'' @ [CHR 0x5C]"

definition literal_name :: "string \<Rightarrow> bool" where
  "literal_name provider_name = list_all (\<lambda>c. c \<notin> set regex_metacharacters) provider_name"

text \<open>\<^verbatim>\<open>check_callback_url_format\<close>: \<^verbatim>\<open>None\<close> for a provider name with \<^verbatim>\<open>@\<close>,
  otherwise whether the pattern matches the URL.\<close>

definition callback_url_pattern :: "string \<Rightarrow> string" where
  "callback_url_pattern provider_name =
     ''^http(s|)://[a-zA-Z0-9.-_]+([:][0-9]{2,5})?(?<!/)/(?!/)login[/]OAuthLogin/''
       @ provider_name @ ''$''"

definition check_callback_url_format ::
  "collaborators \<Rightarrow> string \<Rightarrow> string \<Rightarrow> py_exception + bool option" where
  "check_callback_url_format env provider_name callback_url =
     (if CHR ''@'' \<in> set provider_name then Inr None
      else if literal_name provider_name
      then Inr (Some (callback_url_matches provider_name callback_url))
      else if \<not> re_compiles env (callback_url_pattern provider_name) then Inl ReError
      else Inr (Some (re_match env (callback_url_pattern provider_name) callback_url)))"

text \<open>
  The inner loop of \<^verbatim>\<open>__oauth_apply_templates\<close> over the entries of one enabled
  provider: each value is replaced by its substitution; a callback URL that
  fails the check disables the provider and the loop goes on; a \<^verbatim>\<open>KeyError\<close> of
  the substitution disables the provider and ends the loop; any other exception
  is not caught. The result is whether the provider is still enabled, and its
  entries.
\<close>

fun substitute_params ::
  "collaborators \<Rightarrow> string \<Rightarrow> (string \<times> string) list \<Rightarrow> (string \<times> string) list \<Rightarrow>
   py_exception + (bool \<times> (string \<times> string) list)" where
  "substitute_params env provider_name vars [] = Inr (True, [])"
| "substitute_params env provider_name vars ((param, param_value) # rest) =
     (case str_format env param_value vars of
        FormatRaises e \<Rightarrow> Inl e
      | FormatKeyError missing \<Rightarrow> Inr (False, (param, param_value) # rest)
      | Formatted v \<Rightarrow>
          (case (if param = ''callback_url'' then check_callback_url_format env provider_name v
                 else Inr (Some True)) of
             Inl e \<Rightarrow> Inl e
           | Inr checked \<Rightarrow>
               (case substitute_params env provider_name vars rest of
                  Inl e \<Rightarrow> Inl e
                | Inr (still_enabled, rest') \<Rightarrow>
                    Inr (checked = Some True \<and> still_enabled, (param, v) # rest'))))"

text \<open>The substitution variables of a provider: the shared variables, overridden
  by the provider's own, with \<^verbatim>\<open>provider\<close> set to its name and an unset
  \<^verbatim>\<open>host\<close> removed.\<close>

definition provider_variables ::
  "(string \<times> string) list \<Rightarrow> string \<Rightarrow> oauth_provider \<Rightarrow> (string \<times> string) list" where
  "provider_variables shared provider_name p =
     (let vars = dict_set ''provider'' provider_name (dict_update (dict_update [] shared) (variables p))
      in if map_of vars ''host'' = Some ''https://<server_host>'' then dict_del ''host'' vars
         else vars)"

text \<open>The body of the outer loop of \<^verbatim>\<open>__oauth_apply_templates\<close>, for one
  provider.\<close>

definition apply_template ::
  "collaborators \<Rightarrow> (string \<times> string) list \<Rightarrow> string \<Rightarrow> oauth_provider \<Rightarrow>
   py_exception + oauth_provider" where
  "apply_template env shared provider_name p =
     (if \<not> provider_enabled p then Inr p
      else
        let template_name = (case template p of None \<Rightarrow> ''default'' | Some t \<Rightarrow> t)
        in case OAUTH_TEMPLATES env template_name of
             None \<Rightarrow> Inr (p\<lparr>provider_enabled := False\<rparr>)
           | Some defaults \<Rightarrow>
               if defaults = [] then Inr (p\<lparr>provider_enabled := False\<rparr>)
               else if template_name = ''default'' then Inr (p\<lparr>provider_enabled := False\<rparr>)
               else
                 (case substitute_params env provider_name (provider_variables shared provider_name p)
                         (dict_setdefaults defaults (params p)) of
                    Inl e \<Rightarrow> Inl e
                  | Inr (still_enabled, params') \<Rightarrow>
                      Inr (p\<lparr>provider_enabled := still_enabled, params := params'\<rparr>)))"

fun apply_templates ::
  "collaborators \<Rightarrow> (string \<times> string) list \<Rightarrow> (string \<times> oauth_provider) list \<Rightarrow>
   py_exception + (string \<times> oauth_provider) list" where
  "apply_templates env shared [] = Inr []"
| "apply_templates env shared ((provider_name, p) # ps) =
     (case apply_template env shared provider_name p of
        Inl e \<Rightarrow> Inl e
      | Inr p' \<Rightarrow>
          (case apply_templates env shared ps of
             Inl e \<Rightarrow> Inl e
           | Inr ps' \<Rightarrow> Inr ((provider_name, p') # ps')))"

text \<open>\<^verbatim>\<open>__oauth_apply_templates\<close>, on the authentication configuration.\<close>

definition oauth_apply_templates :: "collaborators \<Rightarrow> auth_config \<Rightarrow> py_exception + auth_config" where
  "oauth_apply_templates env cfg =
     (case method_oauth cfg of
        None \<Rightarrow> Inr cfg
      | Some mo \<Rightarrow>
          (case apply_templates env (shared_variables mo) (providers mo) of
             Inl e \<Rightarrow> Inl e
           | Inr ps' \<Rightarrow> Inr (cfg\<lparr>method_oauth := Some (mo\<lparr>providers := ps'\<rparr>)\<rparr>)))"

text \<open>\<^verbatim>\<open>get_oauth_providers\<close>: the names of the providers whose \<^verbatim>\<open>enabled\<close> is
  true.\<close>

definition oauth_providers_of :: "auth_config \<Rightarrow> (string \<times> oauth_provider) list" where
  "oauth_providers_of cfg = (case method_oauth cfg of None \<Rightarrow> [] | Some mo \<Rightarrow> providers mo)"

definition get_oauth_providers :: "manager \<Rightarrow> string list" where
  "get_oauth_providers m =
     map fst (filter (\<lambda>np. provider_enabled (snd np)) (oauth_providers_of (auth_cfg m)))"

text \<open>\<^verbatim>\<open>get_oauth_config\<close>: the configuration of the provider (\<open>None\<close> is the empty
  dictionary that an unknown provider gives). A client secret or a client id
  that is absent or has the example value turns the provider off before the
  configuration is returned; for an unknown provider that assignment raises.\<close>

definition get_oauth_config :: "manager \<Rightarrow> string \<Rightarrow> oauth_provider option outcome" where
  "get_oauth_config m provider =
     (let provider_cfg = map_of (oauth_providers_of (auth_cfg m)) provider;
          secret = (case provider_cfg of None \<Rightarrow> None | Some p \<Rightarrow> client_secret p);
          ident = (case provider_cfg of None \<Rightarrow> None | Some p \<Rightarrow> client_id p)
      in if (case secret of None \<Rightarrow> True | Some v \<Rightarrow> v = ''ExampleClientSecret'')
            \<or> (case ident of None \<Rightarrow> True | Some v \<Rightarrow> v = ''ExampleClientID'')
         then
           (case method_oauth (auth_cfg m) of
              None \<Rightarrow> Raises KeyError m
            | Some mo \<Rightarrow>
                (case provider_cfg of
                   None \<Rightarrow> Raises KeyError m
                 | Some p \<Rightarrow>
                     let m' = m\<lparr>auth_cfg := (auth_cfg m)\<lparr>method_oauth :=
                                 Some (mo\<lparr>providers :=
                                   dict_set provider (p\<lparr>provider_enabled := False\<rparr>) (providers mo)\<rparr>)\<rparr>\<rparr>
                     in Returns (map_of (oauth_providers_of (auth_cfg m')) provider) m'))
         else Returns provider_cfg m)"

section \<open>Construction and reload of the configuration\<close>

text \<open>\<^verbatim>\<open>__get_config_dict\<close>: the document that \<^verbatim>\<open>load_json\<close> read, or
  \<^verbatim>\<open>ValueError\<close> when it is the empty dictionary.\<close>

definition get_config_dict :: "server_config \<Rightarrow> py_exception + server_config" where
  "get_config_dict loaded = (if is_empty_dict loaded then Inl ValueError else Inr loaded)"

text \<open>The part of \<^verbatim>\<open>__init__\<close> that runs when authentication is enabled: the
  search for an enabled backend, which turns off the LDAP and PAM methods whose
  library is missing, applies the OAuth templates and turns off the OAuth method
  without an enabled provider.\<close>

definition demote_ldap :: "collaborators \<Rightarrow> auth_config \<Rightarrow> bool \<times> auth_config" where
  "demote_ldap env cfg =
     (case method_ldap cfg of
        None \<Rightarrow> (False, cfg)
      | Some c \<Rightarrow>
          if \<not> ldap_enabled c then (False, cfg)
          else if ''ldap'' \<notin> set (UNSUPPORTED_METHODS env) then (True, cfg)
          else (False, cfg\<lparr>method_ldap := Some (c\<lparr>ldap_enabled := False\<rparr>)\<rparr>))"

definition demote_pam :: "collaborators \<Rightarrow> auth_config \<Rightarrow> bool \<times> auth_config" where
  "demote_pam env cfg =
     (case method_pam cfg of
        None \<Rightarrow> (False, cfg)
      | Some c \<Rightarrow>
          if \<not> pam_enabled c then (False, cfg)
          else if ''pam'' \<notin> set (UNSUPPORTED_METHODS env) then (True, cfg)
          else (False, cfg\<lparr>method_pam := Some (c\<lparr>pam_enabled := False\<rparr>)\<rparr>))"

definition setup_oauth :: "collaborators \<Rightarrow> auth_config \<Rightarrow> py_exception + (bool \<times> auth_config)" where
  "setup_oauth env cfg =
     (case method_oauth cfg of
        None \<Rightarrow> Inr (False, cfg)
      | Some mo \<Rightarrow>
          if \<not> oauth_enabled mo then Inr (False, cfg)
          else
            (case oauth_apply_templates env cfg of
               Inl e \<Rightarrow> Inl e
             | Inr cfg' \<Rightarrow>
                 if list_ex (\<lambda>np. provider_enabled (snd np)) (oauth_providers_of cfg')
                 then Inr (True, cfg')
                 else Inr (False,
                        cfg'\<lparr>method_oauth :=
                          map_option (\<lambda>mo'. mo'\<lparr>oauth_enabled := False\<rparr>) (method_oauth cfg')\<rparr>)))"

definition find_auth_methods ::
  "collaborators \<Rightarrow> bool \<Rightarrow> auth_config \<Rightarrow> py_exception + auth_config" where
  "find_auth_methods env force_auth cfg =
     (let found_dictionary =
            (case method_dictionary cfg of None \<Rightarrow> False | Some c \<Rightarrow> dictionary_enabled c)
      in case demote_ldap env cfg of
           (found_ldap, cfg1) \<Rightarrow>
             (case demote_pam env cfg1 of
                (found_pam, cfg2) \<Rightarrow>
                  (case setup_oauth env cfg2 of
                     Inl e \<Rightarrow> Inl e
                   | Inr (found_oauth, cfg3) \<Rightarrow>
                       if found_dictionary \<or> found_ldap \<or> found_pam \<or> found_oauth then Inr cfg3
                       else if force_auth then Inr cfg3
                       else Inr (cfg3\<lparr>enabled := Some False\<rparr>))))"

text \<open>
  \<^verbatim>\<open>SessionManager.__init__\<close>, for the document loaded from the configuration
  file. The manager starts without a database connection; \<open>db\<close> is the persisted
  store that a later \<^verbatim>\<open>set_database_connection\<close> connects it to.
\<close>

definition SessionManager_init ::
  "collaborators \<Rightarrow> server_config \<Rightarrow> bool \<Rightarrow> persisted_store \<Rightarrow> py_exception + manager" where
  "SessionManager_init env loaded force_auth db =
     (case get_config_dict loaded of
        Inl e \<Rightarrow> Inl e
      | Inr scfg_dict \<Rightarrow>
          (case authentication scfg_dict of
             None \<Rightarrow> Inl KeyError
           | Some cfg0 \<Rightarrow>
               let cfg1 = (if force_auth then cfg0\<lparr>enabled := Some True\<rparr> else cfg0);
                   regex_list = (case regex_groups cfg1 of None \<Rightarrow> [] | Some rg \<Rightarrow> regex_group_list rg)
               in if list_ex (\<lambda>gr. list_ex (\<lambda>r. \<not> re_compiles env r) (snd gr)) regex_list
                  then Inl ReError
                  else
                    (case (if enabled cfg1 = Some True then find_auth_methods env force_auth cfg1
                           else Inr cfg1) of
                       Inl e \<Rightarrow> Inl e
                     | Inr cfg2 \<Rightarrow>
                         Inr \<lparr> database_connection = False,
                               logins_since_prune = 0,
                               sessions = [],
                               max_run_count = cfg_max_run_count scfg_dict,
                               store_config = (case cfg_store scfg_dict of
                                                 None \<Rightarrow> empty_store_block | Some s \<Rightarrow> s),
                               auth_cfg = cfg2,
                               mgr_refresh_time = cfg_refresh_time cfg1,
                               regex_groups_enabled =
                                 (case regex_groups cfg1 of None \<Rightarrow> False | Some rg \<Rightarrow> regex_enabled rg),
                               group_regexes_compiled = regex_list,
                               store = db \<rparr>)))"

text \<open>\<^verbatim>\<open>set_database_connection\<close>\<close>

definition set_database_connection :: "manager \<Rightarrow> bool \<Rightarrow> manager" where
  "set_database_connection m connection = m\<lparr>database_connection := connection\<rparr>"

text \<open>
  \<^verbatim>\<open>reload_config\<close>, for the document that \<^verbatim>\<open>load_json\<close> reads at the time of
  the call. One step of its loop over \<^verbatim>\<open>session_lifetime\<close>, \<^verbatim>\<open>refresh_time\<close>
  and \<^verbatim>\<open>logins_until_cleanup\<close> is \<open>reload_field\<close>, given the field as its reader
  and its writer; the flag is \<^verbatim>\<open>update_sessions\<close>.
\<close>

definition reload_field ::
  "(auth_config \<Rightarrow> int option) \<Rightarrow> (int option \<Rightarrow> auth_config \<Rightarrow> auth_config) \<Rightarrow>
   server_config \<Rightarrow> auth_config \<times> bool \<Rightarrow> py_exception + (auth_config \<times> bool)" where
  "reload_field read_field write_field cfg_dict st =
     (case st of (cfg, update_sessions) \<Rightarrow>
        (case read_field cfg of
           None \<Rightarrow> Inr (cfg, update_sessions)
         | Some prev_value \<Rightarrow>
             (case authentication cfg_dict of
                None \<Rightarrow> Inl KeyError
              | Some new_cfg \<Rightarrow>
                  let new_value = (case read_field new_cfg of None \<Rightarrow> 0 | Some v \<Rightarrow> v)
                  in if prev_value \<noteq> new_value
                     then Inr (write_field (Some new_value) cfg, True)
                     else Inr (cfg, update_sessions))))"

definition reload_auth_fields ::
  "server_config \<Rightarrow> auth_config \<Rightarrow> py_exception \<times> auth_config + auth_config \<times> bool" where
  "reload_auth_fields cfg_dict cfg =
     (case reload_field cfg_session_lifetime (\<lambda>v c. c\<lparr>cfg_session_lifetime := v\<rparr>) cfg_dict (cfg, False) of
        Inl e \<Rightarrow> Inl (e, cfg)
      | Inr (cfg1, u1) \<Rightarrow>
          (case reload_field cfg_refresh_time (\<lambda>v c. c\<lparr>cfg_refresh_time := v\<rparr>) cfg_dict (cfg1, u1) of
             Inl e \<Rightarrow> Inl (e, cfg1)
           | Inr (cfg2, u2) \<Rightarrow>
               (case reload_field logins_until_cleanup (\<lambda>v c. c\<lparr>logins_until_cleanup := v\<rparr>)
                       cfg_dict (cfg2, u2) of
                  Inl e \<Rightarrow> Inl (e, cfg2)
                | Inr r \<Rightarrow> Inr r)))"

text \<open>The loop that rewrites the cached sessions: each session gets the
  configured lifetime and then the configured refresh time, raw.\<close>

fun update_cached_sessions ::
  "auth_config \<Rightarrow> session list \<Rightarrow> py_exception \<times> session list + session list" where
  "update_cached_sessions cfg [] = Inr []"
| "update_cached_sessions cfg (s # ss) =
     (case cfg_session_lifetime cfg of
        None \<Rightarrow> Inl (KeyError, s # ss)
      | Some lifetime \<Rightarrow>
          (case cfg_refresh_time cfg of
             None \<Rightarrow> Inl (KeyError, s\<lparr>session_lifetime := lifetime\<rparr> # ss)
           | Some refresh \<Rightarrow>
               (case update_cached_sessions cfg ss of
                  Inl (e, ss') \<Rightarrow> Inl (e, s\<lparr>session_lifetime := lifetime, refresh_time := Some refresh\<rparr> # ss')
                | Inr ss' \<Rightarrow> Inr (s\<lparr>session_lifetime := lifetime, refresh_time := Some refresh\<rparr> # ss'))))"

definition reload_config :: "manager \<Rightarrow> server_config \<Rightarrow> unit outcome" where
  "reload_config m loaded =
     (case get_config_dict loaded of
        Inl e \<Rightarrow> Returns () m
      | Inr cfg_dict \<Rightarrow>
          let new_max_run_count = cfg_max_run_count cfg_dict;
              m1 = (if max_run_count m \<noteq> new_max_run_count
                    then m\<lparr>max_run_count := new_max_run_count\<rparr> else m);
              new_store_config_val = (case cfg_store cfg_dict of None \<Rightarrow> empty_store_block | Some s \<Rightarrow> s);
              m2 = (if store_config m1 \<noteq> new_store_config_val
                    then m1\<lparr>store_config := new_store_config_val\<rparr> else m1)
          in case reload_auth_fields cfg_dict (auth_cfg m2) of
               Inl (e, cfg') \<Rightarrow> Raises e (m2\<lparr>auth_cfg := cfg'\<rparr>)
             | Inr (cfg', update_sessions) \<Rightarrow>
                 let m3 = m2\<lparr>auth_cfg := cfg'\<rparr>
                 in if update_sessions then
                      (case update_cached_sessions cfg' (sessions m3) of
                         Inl (e, ss') \<Rightarrow> Raises e (m3\<lparr>sessions := ss'\<rparr>)
                       | Inr ss' \<Rightarrow> Returns () (m3\<lparr>sessions := ss'\<rparr>))
                    else Returns () m3)"

section \<open>The validator chain in the words of the specification\<close>

text \<open>
  The specification describes the chain as an ordered list of validators that is
  iterated until the first success. An attempt either proves the credential, by
  an existing session token or by a validated identity, or does not; the chain
  is the list of the five attempts in the stated order, and \<open>first_success\<close> is
  the iteration, each attempt running on the manager as the attempt before it
  left it.
\<close>

datatype credential_proof = ExistingToken string | Identity validation

type_synonym attempt = "manager \<Rightarrow> py_exception + (credential_proof option \<times> manager)"

fun first_success :: "attempt list \<Rightarrow> attempt" where
  "first_success [] m = Inr (None, m)"
| "first_success (v # vs) m =
     (case v m of
        Inl e \<Rightarrow> Inl e
      | Inr (Some proof, m') \<Rightarrow> Inr (Some proof, m')
      | Inr (None, m') \<Rightarrow> first_success vs m')"







text \<open>
  The pattern of a callback URL as the specification gives it,
  \<^verbatim>\<open>^http(s)?://<host[:port]>/(?!/)login/OAuthLogin/<provider_name>$\<close>: a host is
  a non-empty run of letters, digits, \<^verbatim>\<open>.\<close>, \<^verbatim>\<open>-\<close> and \<^verbatim>\<open>_\<close>, a port is
  \<^verbatim>\<open>:\<close> and two to five digits.
\<close>

definition host_char :: "char \<Rightarrow> bool" where
  "host_char c =
     (in_range (CHR ''a'') (CHR ''z'') c \<or> in_range (CHR ''A'') (CHR ''Z'') c
      \<or> in_range (CHR ''0'') (CHR ''9'') c \<or> c = CHR ''.'' \<or> c = CHR ''-'' \<or> c = CHR ''_'')"

definition specified_callback_url_matches :: "string \<Rightarrow> string \<Rightarrow> bool" where
  "specified_callback_url_matches provider_name url =
     url_matches (run_and_port host_char) provider_name url"

section \<open>Concrete inputs\<close>

text \<open>A session of the user \<^verbatim>\<open>alice\<close>, last used at time 100, with a lifetime of
  300 and a refresh time of 60, and the store that holds its row.\<close>

definition alice_session :: session where
  "alice_session =
     \<lparr> token = ''0123456789abcdef0123456789abcdef'', user = ''alice'', groups = [''dev''],
       session_lifetime = 300, refresh_time = Some 60, root = False, database = True,
       last_access = 100 \<rparr>"

definition alice_store :: persisted_store where
  "alice_store =
     \<lparr> db_raises = False,
       auth_sessions = [\<lparr> rec_token = ''0123456789abcdef0123456789abcdef'', rec_user_name = ''alice'',
                          rec_groups = ''dev'', rec_last_access = 100 \<rparr>],
       personal_access_tokens = [],
       system_superusers = [] \<rparr>"

text \<open>A manager with authentication enabled and no backend configured, connected
  to that store, with the session of \<^verbatim>\<open>alice\<close> in its cache.\<close>

definition base_auth_config :: auth_config where
  "base_auth_config =
     \<lparr> enabled = Some True, cfg_session_lifetime = Some 300, cfg_refresh_time = Some 60,
       logins_until_cleanup = Some 30, super_user = Some ''root'',
       regex_groups = None, method_dictionary = None, method_pam = None, method_ldap = None,
       method_oauth = None \<rparr>"

definition base_manager :: manager where
  "base_manager =
     \<lparr> database_connection = True, logins_since_prune = 0, sessions = [alice_session],
       max_run_count = Some 500, store_config = empty_store_block,
       auth_cfg = base_auth_config, mgr_refresh_time = Some 60,
       regex_groups_enabled = False, group_regexes_compiled = [],
       store = alice_store \<rparr>"

definition disabled_manager :: manager where
  "disabled_manager = base_manager\<lparr>auth_cfg := base_auth_config\<lparr>enabled := Some False\<rparr>\<rparr>"

text \<open>The same manager when the database is down.\<close>

definition failing_db_manager :: manager where
  "failing_db_manager = base_manager\<lparr>store := alice_store\<lparr>db_raises := True\<rparr>\<rparr>"

text \<open>The empty document, and a document that changes \<^verbatim>\<open>max_run_count\<close> and
  \<^verbatim>\<open>session_lifetime\<close>.\<close>

definition empty_dict :: server_config where
  "empty_dict =
     \<lparr> cfg_max_run_count = None, cfg_store = None, authentication = None, other_keys = [] \<rparr>"

definition changed_document :: server_config where
  "changed_document =
     \<lparr> cfg_max_run_count = Some 10, cfg_store = None,
       authentication = Some (base_auth_config\<lparr>cfg_session_lifetime := Some 600\<rparr>),
       other_keys = [] \<rparr>"

text \<open>Two sessions last used at time 900, and the manager that caches both.\<close>

definition bob_session :: session where
  "bob_session =
     \<lparr> token = ''b0b0b0b0b0b0b0b0b0b0b0b0b0b0b0b0'', user = ''bob'', groups = [],
       session_lifetime = 300, refresh_time = Some 60, root = False, database = True,
       last_access = 900 \<rparr>"

definition carol_session :: session where
  "carol_session =
     \<lparr> token = ''ca01ca01ca01ca01ca01ca01ca01ca01'', user = ''carol'', groups = [],
       session_lifetime = 300, refresh_time = Some 60, root = False, database = True,
       last_access = 900 \<rparr>"

definition stale_store :: persisted_store where
  "stale_store =
     \<lparr> db_raises = False,
       auth_sessions = [\<lparr> rec_token = ''b0b0b0b0b0b0b0b0b0b0b0b0b0b0b0b0'', rec_user_name = ''bob'',
                          rec_groups = [], rec_last_access = 900 \<rparr>,
                        \<lparr> rec_token = ''ca01ca01ca01ca01ca01ca01ca01ca01'', rec_user_name = ''carol'',
                          rec_groups = [], rec_last_access = 900 \<rparr>],
       personal_access_tokens = [],
       system_superusers = [] \<rparr>"

definition stale_manager :: manager where
  "stale_manager = base_manager\<lparr>sessions := [bob_session, carol_session], store := stale_store\<rparr>"

text \<open>Collaborators that accept nothing: every library is installed, there is no
  template, PAM and LDAP reject, no pattern matches.\<close>

definition plain_env :: collaborators where
  "plain_env =
     \<lparr> UNSUPPORTED_METHODS = [],
       OAUTH_TEMPLATES = (\<lambda>name. None),
       pam_auth_user = (\<lambda>name password. False),
       ldap_auth_user = (\<lambda>ldap_conf name password. False),
       ldap_get_groups = (\<lambda>ldap_conf name password. []),
       re_compiles = (\<lambda>pattern. True),
       re_search = (\<lambda>pattern s. False),
       re_match = (\<lambda>pattern s. False),
       str_format = (\<lambda>s vars. Formatted s),
       other_digests = (\<lambda>name. None) \<rparr>"

text \<open>A manager without a database whose dictionary backend holds one entry.\<close>

definition dictionary_manager :: "string \<Rightarrow> manager" where
  "dictionary_manager entry =
     \<lparr> database_connection = False, logins_since_prune = 0, sessions = [],
       max_run_count = None, store_config = empty_store_block,
       auth_cfg = base_auth_config\<lparr>method_dictionary :=
          Some \<lparr> dictionary_enabled = True, auths = [entry], dictionary_groups = None \<rparr>\<rparr>,
       mgr_refresh_time = Some 60,
       regex_groups_enabled = False, group_regexes_compiled = [],
       store = alice_store \<rparr>"

text \<open>The entry as the specification prints it, whose digest has 63 digits, and
  the digest of \<^verbatim>\<open>password\<close>, which has 64.\<close>

definition spec_entry :: string where
  "spec_entry = ''alice:5e884898da28047151d0e56f8dc6292773603d0d6aabbdd62a11ef721d1542d:sha256''"

definition full_entry :: string where
  "full_entry = ''alice:5e884898da28047151d0e56f8dc6292773603d0d6aabbdd62a11ef721d1542d8:sha256''"

definition password_digest :: string where
  "password_digest = ''5e884898da28047151d0e56f8dc6292773603d0d6aabbdd62a11ef721d1542d8''"

text \<open>
  A reading of \<^verbatim>\<open>str.format(**variables)\<close> for the concrete inputs: it agrees with
  Python on the format strings whose replacement fields are plain names
  (\<^verbatim>\<open>{host}\<close>, \<^verbatim>\<open>{provider}\<close>) and that have no doubled braces. The second
  argument is the name of the field being read, if one is open.
\<close>

fun py_format :: "(string \<times> string) list \<Rightarrow> string option \<Rightarrow> string \<Rightarrow> format_result" where
  "py_format vars None [] = Formatted []"
| "py_format vars (Some field) [] = FormatRaises ValueError"
| "py_format vars None (c # cs) =
     (if c = CHR ''{'' then py_format vars (Some []) cs
      else if c = CHR ''}'' then FormatRaises ValueError
      else (case py_format vars None cs of
              Formatted r \<Rightarrow> Formatted (c # r)
            | other \<Rightarrow> other))"
| "py_format vars (Some field) (c # cs) =
     (if c = CHR ''}'' then
        (case map_of vars field of
           None \<Rightarrow> FormatKeyError field
         | Some v \<Rightarrow>
             (case py_format vars None cs of
                Formatted r \<Rightarrow> Formatted (v @ r)
              | other \<Rightarrow> other))
      else py_format vars (Some (field @ [c])) cs)"

text \<open>
  Collaborators for an OAuth configuration: one template, \<^verbatim>\<open>github/v1\<close>.
\<close>

definition oauth_env :: collaborators where
  "oauth_env =
     \<lparr> UNSUPPORTED_METHODS = [],
       OAUTH_TEMPLATES = (\<lambda>name. if name = ''github/v1''
          then Some [(''callback_url'', ''{host}/login/OAuthLogin/{provider}''),
                     (''authorization_url'', ''https://github.com/login/oauth/authorize''),
                     (''token_url'', ''https://github.com/login/oauth/access_token'')]
          else None),
       pam_auth_user = (\<lambda>name password. False),
       ldap_auth_user = (\<lambda>ldap_conf name password. False),
       ldap_get_groups = (\<lambda>ldap_conf name password. []),
       re_compiles = (\<lambda>pattern. True),
       re_search = (\<lambda>pattern s. False),
       re_match = (\<lambda>pattern s. False),
       str_format = (\<lambda>s vars. py_format vars None s),
       other_digests = (\<lambda>name. None) \<rparr>"

text \<open>A provider \<^verbatim>\<open>github\<close> with \<^verbatim>\<open>enabled: true\<close> that still has the example
  client id and client secret; a provider \<^verbatim>\<open>gitlab\<close> of the same template whose
  callback URL lacks the \<^verbatim>\<open>login/\<close> segment; and a provider whose name has an
  \<^verbatim>\<open>@\<close>.\<close>

definition github_provider :: oauth_provider where
  "github_provider =
     \<lparr> provider_enabled = True, client_id = Some ''ExampleClientID'',
       client_secret = Some ''ExampleClientSecret'', template = Some ''github/v1'',
       variables = [], params = [] \<rparr>"

definition gitlab_provider :: oauth_provider where
  "gitlab_provider =
     \<lparr> provider_enabled = True, client_id = Some ''4f1c9a'',
       client_secret = Some ''c0ffee'', template = Some ''github/v1'',
       variables = [], params = [(''callback_url'', ''{host}/OAuthLogin/{provider}'')] \<rparr>"

definition sso_provider :: oauth_provider where
  "sso_provider =
     \<lparr> provider_enabled = True, client_id = Some ''77aa10'',
       client_secret = Some ''5ec2e7'', template = Some ''github/v1'',
       variables = [], params = [] \<rparr>"

definition oauth_method :: method_oauth_config where
  "oauth_method =
     \<lparr> oauth_enabled = True,
       shared_variables = [(''host'', ''https://codechecker.example.com'')],
       providers = [(''github'', github_provider), (''gitlab'', gitlab_provider),
                    (''corp@sso'', sso_provider)] \<rparr>"

definition oauth_auth_config :: auth_config where
  "oauth_auth_config = base_auth_config\<lparr>method_oauth := Some oauth_method\<rparr>"

definition oauth_document :: server_config where
  "oauth_document =
     \<lparr> cfg_max_run_count = None, cfg_store = None, authentication = Some oauth_auth_config,
       other_keys = [] \<rparr>"

text \<open>The manager that \<^verbatim>\<open>__init__\<close> makes of this document: the entries of the
  three providers are the substituted entries of the template, and the two
  providers whose callback URL fails the check are turned off.\<close>

definition substituted_params :: "string \<Rightarrow> (string \<times> string) list" where
  "substituted_params callback_url =
     [(''callback_url'', callback_url),
      (''authorization_url'', ''https://github.com/login/oauth/authorize''),
      (''token_url'', ''https://github.com/login/oauth/access_token'')]"

definition oauth_manager :: manager where
  "oauth_manager =
     \<lparr> database_connection = False, logins_since_prune = 0, sessions = [],
       max_run_count = None, store_config = empty_store_block,
       auth_cfg = base_auth_config\<lparr>method_oauth :=
         Some (oauth_method\<lparr>providers :=
           [(''github'', github_provider\<lparr>params :=
               substituted_params ''https://codechecker.example.com/login/OAuthLogin/github''\<rparr>),
            (''gitlab'', gitlab_provider\<lparr>provider_enabled := False, params :=
               substituted_params ''https://codechecker.example.com/OAuthLogin/gitlab''\<rparr>),
            (''corp@sso'', sso_provider\<lparr>provider_enabled := False, params :=
               substituted_params ''https://codechecker.example.com/login/OAuthLogin/corp@sso''\<rparr>)]\<rparr>)\<rparr>,
       mgr_refresh_time = Some 60,
       regex_groups_enabled = False, group_regexes_compiled = [],
       store = alice_store \<rparr>"

text \<open>The entries of the template, and the entry of \<^verbatim>\<open>github\<close> in that manager.\<close>

definition template_entries :: "(string \<times> string) list" where
  "template_entries =
     [(''callback_url'', ''{host}/login/OAuthLogin/{provider}''),
      (''authorization_url'', ''https://github.com/login/oauth/authorize''),
      (''token_url'', ''https://github.com/login/oauth/access_token'')]"

definition github_entry :: oauth_provider where
  "github_entry = github_provider\<lparr>params :=
      substituted_params ''https://codechecker.example.com/login/OAuthLogin/github''\<rparr>"

text \<open>A document whose only provider, \<^verbatim>\<open>github\<close>, sets the variable \<^verbatim>\<open>host\<close>
  to a URL with a path, and the manager that \<^verbatim>\<open>__init__\<close> makes of it.\<close>

definition path_provider :: oauth_provider where
  "path_provider =
     \<lparr> provider_enabled = True, client_id = Some ''4f1c9a'',
       client_secret = Some ''c0ffee'', template = Some ''github/v1'',
       variables = [(''host'', ''https://evil.example.com/any/path'')], params = [] \<rparr>"

definition path_method :: method_oauth_config where
  "path_method =
     \<lparr> oauth_enabled = True,
       shared_variables = [(''host'', ''https://codechecker.example.com'')],
       providers = [(''github'', path_provider)] \<rparr>"

definition path_document :: server_config where
  "path_document =
     \<lparr> cfg_max_run_count = None, cfg_store = None,
       authentication = Some (base_auth_config\<lparr>method_oauth := Some path_method\<rparr>),
       other_keys = [] \<rparr>"

definition path_manager :: manager where
  "path_manager =
     \<lparr> database_connection = False, logins_since_prune = 0, sessions = [],
       max_run_count = None, store_config = empty_store_block,
       auth_cfg = base_auth_config\<lparr>method_oauth :=
         Some (path_method\<lparr>providers :=
           [(''github'', path_provider\<lparr>params :=
               substituted_params ''https://evil.example.com/any/path/login/OAuthLogin/github''\<rparr>)]\<rparr>)\<rparr>,
       mgr_refresh_time = Some 60,
       regex_groups_enabled = False, group_regexes_compiled = [],
       store = alice_store \<rparr>"

text \<open>A manager whose PAM backend accepts \<^verbatim>\<open>bob:hunter2\<close> and whose regular
  expression groups put every user whose name starts with \<^verbatim>\<open>b\<close> into the group
  \<^verbatim>\<open>staff\<close>.\<close>

definition pam_env :: collaborators where
  "pam_env =
     plain_env\<lparr>pam_auth_user := (\<lambda>name password. name = ''bob'' \<and> password = ''hunter2''),
               re_search := (\<lambda>pattern s. pattern = ''^b'' \<and> take 1 s = ''b'')\<rparr>"

definition pam_manager :: manager where
  "pam_manager =
     \<lparr> database_connection = False, logins_since_prune = 0, sessions = [],
       max_run_count = None, store_config = empty_store_block,
       auth_cfg = base_auth_config\<lparr>method_pam := Some \<lparr> pam_enabled = True \<rparr>,
          regex_groups := Some \<lparr> regex_enabled = True, regex_group_list = [(''staff'', [''^b''])] \<rparr>\<rparr>,
       mgr_refresh_time = Some 60,
       regex_groups_enabled = True, group_regexes_compiled = [(''staff'', [''^b''])],
       store = alice_store \<rparr>"

section \<open>Properties\<close>

subsection \<open>Evaluation of the digest\<close>

lemma sha256_password: "sha256_hexdigest ''password'' = password_digest"
  unfolding password_digest_def by code_simp

subsection \<open>Exceptions that leave the lifecycle operations\<close>

text \<open>
  C1 does not hold of \<^verbatim>\<open>create_session\<close>. With a database connection set and the
  database down, the credential \<^verbatim>\<open>alice:secret\<close> makes
  \<^verbatim>\<open>__try_personal_access_token\<close> log the failure of its query and then read the
  variable that the query was to assign: the \<^verbatim>\<open>UnboundLocalError\<close> leaves
  \<^verbatim>\<open>create_session\<close>, after the login has been counted.
\<close>

theorem create_session_raises_when_database_is_down:
  "create_session env 150 new_token failing_db_manager ''alice:secret''
     = Raises UnboundLocalError (failing_db_manager\<lparr>logins_since_prune := 1\<rparr>)"
  by (simp add: create_session_def failing_db_manager_def base_manager_def base_auth_config_def
      try_auth_token_def try_personal_access_token_def handle_validation_def or_else_def
      alice_store_def)



subsection \<open>Lifetime of a session\<close>

lemma revalidate_dead: "\<not> is_alive t s \<Longrightarrow> revalidate t s db = (s, db)"
  by (simp add: revalidate_def)

lemma dead_stays_dead: "\<not> is_alive t0 s \<Longrightarrow> t0 \<le> t \<Longrightarrow> \<not> is_alive t s"
  by (simp add: is_alive_def)

lemma revalidate_calls_dead:
  "\<not> is_alive t0 s \<Longrightarrow> \<forall>t\<in>set ts. t0 \<le> t \<Longrightarrow> revalidate_calls ts s db = (s, db)"
  by (induction ts) (simp_all add: revalidate_dead dead_stays_dead)

text \<open>
  C2. A session is alive at a time \<open>now\<close> exactly when
  \<open>now - last_access \<le> session_lifetime\<close>. Once it is not alive at a time \<open>t0\<close>, any
  sequence of \<^verbatim>\<open>revalidate\<close> calls made at times from \<open>t0\<close> on leaves the session
  as it is, its \<open>last_access\<close> in particular (and leaves the store as it is), and
  the session is not alive at any time from \<open>t0\<close> on.
\<close>

theorem dead_session_never_resurrected:
  "(is_alive now s \<longleftrightarrow> now - last_access s \<le> session_lifetime s) \<and>
   (\<not> is_alive t0 s \<and> (\<forall>t\<in>set ts. t0 \<le> t) \<and> t0 \<le> t' \<longrightarrow>
      revalidate_calls ts s db = (s, db) \<and>
      last_access (fst (revalidate_calls ts s db)) = last_access s \<and>
      \<not> is_alive t' (fst (revalidate_calls ts s db)))"
proof -
  have "is_alive now s \<longleftrightarrow> now - last_access s \<le> session_lifetime s"
    by (simp add: is_alive_def)
  moreover have "revalidate_calls ts s db = (s, db) \<and>
      last_access (fst (revalidate_calls ts s db)) = last_access s \<and>
      \<not> is_alive t' (fst (revalidate_calls ts s db))"
    if dead: "\<not> is_alive t0 s" and later: "\<forall>t\<in>set ts. t0 \<le> t" and t': "t0 \<le> t'"
  proof -
    have same: "revalidate_calls ts s db = (s, db)"
      using dead later by (rule revalidate_calls_dead)
    moreover have "\<not> is_alive t' s"
      using dead t' by (rule dead_stays_dead)
    ultimately show ?thesis by simp
  qed
  ultimately show ?thesis by blast
qed

theorem dead_session_never_resurrected_witness:
  "(\<not> is_alive 401 alice_session \<and> list_all (\<lambda>t. (401::int) \<le> t) [401, 450, 1000] \<and> (401::int) \<le> 2000) \<and>
   (revalidate_calls [401, 450, 1000] alice_session alice_store = (alice_session, alice_store) \<and>
    last_access (fst (revalidate_calls [401, 450, 1000] alice_session alice_store))
      = last_access alice_session \<and>
    \<not> is_alive 2000 (fst (revalidate_calls [401, 450, 1000] alice_session alice_store))) \<and>
   is_alive 400 alice_session"
proof -
  have dead: "\<not> is_alive 401 alice_session"
    by (simp add: is_alive_def alice_session_def)
  have later: "\<forall>t\<in>set [401, 450, 1000]. (401::int) \<le> t" by simp
  have later': "list_all (\<lambda>t. (401::int) \<le> t) [401, 450, 1000]" by simp
  have le: "(401::int) \<le> 2000" by simp
  have alive: "is_alive 400 alice_session"
    by (simp add: is_alive_def alice_session_def)
  note inst = dead_session_never_resurrected
      [of 400 alice_session 401 "[401, 450, 1000]" 2000 alice_store]
  have after: "revalidate_calls [401, 450, 1000] alice_session alice_store = (alice_session, alice_store) \<and>
    last_access (fst (revalidate_calls [401, 450, 1000] alice_session alice_store))
      = last_access alice_session \<and>
    \<not> is_alive 2000 (fst (revalidate_calls [401, 450, 1000] alice_session alice_store))"
    by (rule inst [THEN conjunct2, THEN mp, OF conjI [OF dead conjI [OF later le]]])
  show ?thesis
    by (rule conjI [OF conjI [OF dead conjI [OF later' le]] conjI [OF after alive]])
qed

subsection \<open>Pruning of the cache\<close>

text \<open>
  C3 does not hold of \<^verbatim>\<open>__cleanup_sessions\<close>. At time 1000 the cached session of
  \<^verbatim>\<open>alice\<close> is past its lifetime; the first loop removes it from the cache,
  because its refresh time has expired as well, and the second loop, which
  deletes rows, no longer finds it: its row stays in the store. And of the two
  cached sessions of \<^verbatim>\<open>bob\<close> and \<^verbatim>\<open>carol\<close>, both past their refresh time and
  within their lifetime, the first loop removes the first and steps over the
  second, which stays in the cache.
\<close>

theorem cleanup_sessions_misses_sessions:
  "\<not> is_alive 1000 alice_session \<and>
   sessions (cleanup_sessions 1000 base_manager) = [] \<and>
   store (cleanup_sessions 1000 base_manager) = alice_store \<and>
   is_refresh_time_expire 1000 carol_session \<and> is_alive 1000 carol_session \<and>
   cleanup_sessions 1000 stale_manager = stale_manager\<lparr>sessions := [carol_session]\<rparr>"
proof (intro conjI)
  show "\<not> is_alive 1000 alice_session"
    by (simp add: is_alive_def alice_session_def)
  show "sessions (cleanup_sessions 1000 base_manager) = []"
    by (simp add: cleanup_sessions_def base_manager_def alice_session_def
        is_refresh_time_expire_def invalidate_local_session_def
        cleanup_refresh_expired.simps cleanup_dead.simps)
  show "store (cleanup_sessions 1000 base_manager) = alice_store"
    by (simp add: cleanup_sessions_def base_manager_def alice_session_def
        is_refresh_time_expire_def invalidate_local_session_def
        cleanup_refresh_expired.simps cleanup_dead.simps)
  show "is_refresh_time_expire 1000 carol_session"
    by (simp add: is_refresh_time_expire_def carol_session_def)
  show "is_alive 1000 carol_session"
    by (simp add: is_alive_def carol_session_def)
  show "cleanup_sessions 1000 stale_manager = stale_manager\<lparr>sessions := [carol_session]\<rparr>"
    by (simp add: cleanup_sessions_def stale_manager_def base_manager_def bob_session_def
        carol_session_def is_refresh_time_expire_def invalidate_local_session_def is_alive_def
        cleanup_refresh_expired.simps cleanup_dead.simps)
qed

subsection \<open>Order of the validators\<close>

text \<open>The iteration stops at the first proof: the attempts that follow it in the list
  do not run.\<close>

lemma first_success_append:
  "first_success (us @ vs) m =
     (case first_success us m of
        Inl e \<Rightarrow> Inl e
      | Inr (Some proof, m') \<Rightarrow> Inr (Some proof, m')
      | Inr (None, m') \<Rightarrow> first_success vs m')"
  by (induction us arbitrary: m) (auto split: sum.split option.split prod.split)






subsection \<open>Groups of a new session\<close>

text \<open>When \<^verbatim>\<open>__handle_validation\<close> returns a validation object, its user is the
  user of the accepting validator, and its groups are, as a set, the groups of
  that validator together with the groups of the regular expressions; for a
  validator that gives no groups this is the case only when no group matched.\<close>

lemma handle_validation_unites_groups:
  assumes "handle_validation env now m a = Inr (Validated v', m')"
  shows "\<exists>v. or_else (or_else (or_else (try_personal_access_token now m a)
                                (\<lambda>m. try_auth_dictionary env m a))
                       (\<lambda>m. try_auth_pam env m a))
             (\<lambda>m. try_auth_ldap env m a) = Inr (Validated v, m') \<and>
           username v' = username v \<and>
           (case validation_groups v of
              Some g \<Rightarrow> (\<exists>g'. validation_groups v' = Some g' \<and>
                           set g' = set g \<union> set (try_regex_groups env m' (username v)))
            | None \<Rightarrow> validation_groups v' = None \<and> try_regex_groups env m' (username v) = [])"
proof (cases "or_else (or_else (or_else (try_personal_access_token now m a)
                                (\<lambda>m. try_auth_dictionary env m a))
                       (\<lambda>m. try_auth_pam env m a))
             (\<lambda>m. try_auth_ldap env m a)")
  case (Inl e)
  with assms show ?thesis by (simp add: handle_validation_def)
next
  case (Inr p)
  obtain r m1 where p: "p = (r, m1)" by (cases p)
  show ?thesis
  proof (cases r)
    case (Validated v)
    with assms Inr p show ?thesis
      by (auto simp: handle_validation_def Let_def split: if_splits option.splits)
  next
    case NotChecked
    with assms Inr p show ?thesis by (simp add: handle_validation_def)
  next
    case Rejected
    with assms Inr p show ?thesis by (simp add: handle_validation_def)
  qed
qed

text \<open>
  C5 does not hold for a credential that PAM accepts when a regular expression
  group matches the user: the validation object of PAM has no \<^verbatim>\<open>groups\<close>, and
  \<^verbatim>\<open>__handle_validation\<close> reads \<^verbatim>\<open>validation['groups']\<close> to add the matched
  groups to. The \<^verbatim>\<open>KeyError\<close> leaves \<^verbatim>\<open>create_session\<close> and no session is made;
  with the regular expression groups off the same credential gets a session
  without groups.
\<close>

theorem pam_with_regex_groups_raises:
  "create_session pam_env 150 new_token pam_manager ''bob:hunter2''
     = Raises KeyError (pam_manager\<lparr>logins_since_prune := 1\<rparr>) \<and>
   create_session pam_env 150 new_token (pam_manager\<lparr>regex_groups_enabled := False\<rparr>) ''bob:hunter2''
     = Returns (TheSession \<lparr> token = new_token, user = ''bob'', groups = [],
                  session_lifetime = 300, refresh_time = Some 60, root = False,
                  database = False, last_access = 150 \<rparr>)
         (pam_manager\<lparr>regex_groups_enabled := False, logins_since_prune := 1,
            sessions := [\<lparr> token = new_token, user = ''bob'', groups = [],
                  session_lifetime = 300, refresh_time = Some 60, root = False,
                  database = False, last_access = 150 \<rparr>]\<rparr>)"
  by (simp add: create_session_def handle_validation_def or_else_def try_auth_token_def
      try_personal_access_token_def try_auth_dictionary_def try_auth_pam_def
      pam_manager_def pam_env_def plain_env_def base_auth_config_def
      is_method_enabled_def method_flag_def try_regex_groups_def
      create_local_session_def Session_init_def is_root_user_def Let_def)

subsection \<open>OAuth providers\<close>

text \<open>Association lists as dictionaries.\<close>

lemma map_of_dict_set_same: "map_of (dict_set k v d) k = Some v"
  by (induction d) auto

lemma map_of_dict_set_other: "k' \<noteq> k \<Longrightarrow> map_of (dict_set k v d) k' = map_of d k'"
  by (induction d) auto

lemma dict_set_entry:
  "distinct (map fst d) \<Longrightarrow> map_of d k \<noteq> None \<Longrightarrow> (k, x) \<in> set (dict_set k v d) \<Longrightarrow> x = v"
proof (induction d)
  case Nil
  then show ?case by simp
next
  case (Cons a d)
  obtain k' v' where a: "a = (k', v')" by (cases a)
  show ?case
  proof (cases "k' = k")
    case True
    with Cons.prems a show ?thesis by (auto simp: rev_image_eqI)
  next
    case False
    with Cons a show ?thesis by (auto split: if_splits)
  qed
qed

text \<open>What the configuration-time pass does to the providers.\<close>

lemma substitute_params_callback:
  "substitute_params env name vars ps = Inr (ok, ps') \<Longrightarrow>
   (''callback_url'', raw) \<in> set ps \<Longrightarrow>
   str_format env raw vars = Formatted url \<Longrightarrow>
   check_callback_url_format env name url \<noteq> Inr (Some True) \<Longrightarrow> \<not> ok"
proof (induction ps arbitrary: ok ps')
  case Nil
  then show ?case by simp
next
  case (Cons a ps)
  obtain param param_value where a: "a = (param, param_value)" by (cases a)
  show ?case
  proof (cases "str_format env param_value vars")
    case (Formatted v)
    show ?thesis
    proof (cases "a = (''callback_url'', raw)")
      case True
      with Cons.prems a Formatted show ?thesis
        by (auto split: sum.splits prod.splits)
    next
      case False
      with Cons.prems have rest: "(''callback_url'', raw) \<in> set ps" by simp
      from Cons.prems(1) a Formatted obtain still rest' where
        "substitute_params env name vars ps = Inr (still, rest')" and "ok \<longrightarrow> still"
        by (auto split: sum.splits prod.splits)
      with Cons.IH [OF _ rest Cons.prems(3) Cons.prems(4)] show ?thesis by blast
    qed
  next
    case (FormatKeyError missing)
    with Cons.prems a show ?thesis by simp
  next
    case (FormatRaises e)
    with Cons.prems a show ?thesis by simp
  qed
qed

lemma apply_templates_entry:
  "apply_templates env shared ps = Inr ps' \<Longrightarrow> (name, p') \<in> set ps' \<Longrightarrow>
   \<exists>p. (name, p) \<in> set ps \<and> apply_template env shared name p = Inr p'"
proof (induction ps arbitrary: ps')
  case Nil
  then show ?case by simp
next
  case (Cons a ps)
  obtain n p0 where a: "a = (n, p0)" by (cases a)
  from Cons.prems(1) a obtain p1 ps1 where
    p1: "apply_template env shared n p0 = Inr p1" and
    ps1: "apply_templates env shared ps = Inr ps1" and
    ps': "ps' = (n, p1) # ps1"
    by (auto split: sum.splits)
  from Cons.prems(2) ps' consider "(name, p') = (n, p1)" | "(name, p') \<in> set ps1" by auto
  then show ?case
  proof cases
    case 1
    with p1 a show ?thesis by auto
  next
    case 2
    from Cons.IH [OF ps1 2] a show ?thesis by auto
  qed
qed

lemma apply_templates_map_of:
  "apply_templates env shared ps = Inr ps' \<Longrightarrow> map_of ps name = Some p \<Longrightarrow>
   \<exists>p'. apply_template env shared name p = Inr p' \<and> map_of ps' name = Some p'"
proof (induction ps arbitrary: ps')
  case Nil
  then show ?case by simp
next
  case (Cons a ps)
  obtain n p0 where a: "a = (n, p0)" by (cases a)
  from Cons.prems(1) a obtain p1 ps1 where
    p1: "apply_template env shared n p0 = Inr p1" and
    ps1: "apply_templates env shared ps = Inr ps1" and
    ps': "ps' = (n, p1) # ps1"
    by (auto split: sum.splits)
  show ?case
  proof (cases "n = name")
    case True
    with Cons.prems(2) a p1 ps' show ?thesis by auto
  next
    case False
    with Cons.prems(2) a have "map_of ps name = Some p" by simp
    from Cons.IH [OF ps1 this] False ps' show ?thesis by auto
  qed
qed

lemma demote_ldap_keeps_oauth: "method_oauth (snd (demote_ldap env c)) = method_oauth c"
  by (simp add: demote_ldap_def split: option.split)

lemma demote_pam_keeps_oauth: "method_oauth (snd (demote_pam env c)) = method_oauth c"
  by (simp add: demote_pam_def split: option.split)

lemma setup_oauth_applies_templates:
  assumes "method_oauth c = Some mo" and "oauth_enabled mo" and "setup_oauth env c = Inr (found, c')"
  shows "apply_templates env (shared_variables mo) (providers mo) = Inr (oauth_providers_of c')"
proof (cases "apply_templates env (shared_variables mo) (providers mo)")
  case (Inl e)
  with assms show ?thesis
    by (simp add: setup_oauth_def oauth_apply_templates_def)
next
  case (Inr ps')
  with assms show ?thesis
    by (auto simp add: setup_oauth_def oauth_apply_templates_def oauth_providers_of_def
        split: if_splits)
qed

lemma find_auth_methods_applies_templates:
  assumes oauth: "method_oauth c = Some mo" and on: "oauth_enabled mo"
    and found: "find_auth_methods env force_auth c = Inr c'"
  shows "apply_templates env (shared_variables mo) (providers mo) = Inr (oauth_providers_of c')"
proof -
  obtain f1 c1 where c1: "demote_ldap env c = (f1, c1)" by (cases "demote_ldap env c")
  obtain f2 c2 where c2: "demote_pam env c1 = (f2, c2)" by (cases "demote_pam env c1")
  have "method_oauth c1 = Some mo"
    using demote_ldap_keeps_oauth [of env c] c1 oauth by simp
  then have oauth2: "method_oauth c2 = Some mo"
    using demote_pam_keeps_oauth [of env c1] c2 by simp
  from found c1 c2 obtain f3 c3 where c3: "setup_oauth env c2 = Inr (f3, c3)"
    and c': "c' = c3 \<or> c' = c3\<lparr>enabled := Some False\<rparr>"
    by (auto simp: find_auth_methods_def Let_def split: sum.splits if_splits)
  from setup_oauth_applies_templates [OF oauth2 on c3] c' show ?thesis
    by (auto simp: oauth_providers_of_def)
qed

lemma init_applies_templates:
  assumes init: "SessionManager_init env loaded force_auth db = Inr m"
    and auth: "authentication loaded = Some cfg"
    and enabled: "force_auth \<or> enabled cfg = Some True"
    and oauth: "method_oauth cfg = Some mo"
    and on: "oauth_enabled mo"
  shows "apply_templates env (shared_variables mo) (providers mo)
           = Inr (oauth_providers_of (auth_cfg m))"
proof -
  define cfg1 where "cfg1 = (if force_auth then cfg\<lparr>enabled := Some True\<rparr> else cfg)"
  have en1: "enabled cfg1 = Some True" and oauth1: "method_oauth cfg1 = Some mo"
    using enabled oauth by (auto simp: cfg1_def)
  from init auth en1 have "find_auth_methods env force_auth cfg1 = Inr (auth_cfg m)"
    by (auto simp: SessionManager_init_def get_config_dict_def Let_def cfg1_def
        split: sum.splits if_splits)
  from find_auth_methods_applies_templates [OF oauth1 on this] show ?thesis .
qed

text \<open>The construction of the manager on the concrete OAuth document.\<close>

lemma oauth_env_template: "OAUTH_TEMPLATES oauth_env ''github/v1'' = Some template_entries"
  by (simp add: oauth_env_def template_entries_def)

lemma oauth_env_format: "str_format oauth_env s vars = py_format vars None s"
  by (simp add: oauth_env_def)

lemma github_variables:
  "provider_variables (shared_variables oauth_method) ''github'' github_provider
     = [(''host'', ''https://codechecker.example.com''), (''provider'', ''github'')]"
  by (simp add: provider_variables_def oauth_method_def github_provider_def)

lemma gitlab_variables:
  "provider_variables (shared_variables oauth_method) ''gitlab'' gitlab_provider
     = [(''host'', ''https://codechecker.example.com''), (''provider'', ''gitlab'')]"
  by (simp add: provider_variables_def oauth_method_def gitlab_provider_def)

lemma sso_variables:
  "provider_variables (shared_variables oauth_method) ''corp@sso'' sso_provider
     = [(''host'', ''https://codechecker.example.com''), (''provider'', ''corp@sso'')]"
  by (simp add: provider_variables_def oauth_method_def sso_provider_def)

lemma format_callback:
  "py_format [(''host'', ''https://codechecker.example.com''), (''provider'', name)] None
     ''{host}/login/OAuthLogin/{provider}''
   = Formatted (''https://codechecker.example.com/login/OAuthLogin/'' @ name)"
  by simp

lemma format_gitlab_callback:
  "py_format [(''host'', ''https://codechecker.example.com''), (''provider'', ''gitlab'')] None
     ''{host}/OAuthLogin/{provider}''
   = Formatted ''https://codechecker.example.com/OAuthLogin/gitlab''"
  by simp

lemma format_authorization:
  "py_format vars None ''https://github.com/login/oauth/authorize''
   = Formatted ''https://github.com/login/oauth/authorize''"
  by simp

lemma format_token:
  "py_format vars None ''https://github.com/login/oauth/access_token''
   = Formatted ''https://github.com/login/oauth/access_token''"
  by simp

lemma check_github:
  "check_callback_url_format env ''github''
     ''https://codechecker.example.com/login/OAuthLogin/github'' = Inr (Some True)"
  by code_simp

lemma check_gitlab:
  "check_callback_url_format env ''gitlab''
     ''https://codechecker.example.com/OAuthLogin/gitlab'' = Inr (Some False)"
  by code_simp

lemma check_sso:
  "check_callback_url_format env ''corp@sso'' url = Inr None"
  by (simp add: check_callback_url_format_def)

lemma check_path:
  "check_callback_url_format env ''github''
     ''https://evil.example.com/any/path/login/OAuthLogin/github'' = Inr (Some True)"
  by code_simp

lemma defaults_of_empty: "dict_setdefaults template_entries [] = template_entries"
  by (simp add: template_entries_def dict_setdefault_def)

lemma defaults_of_gitlab:
  "dict_setdefaults template_entries [(''callback_url'', ''{host}/OAuthLogin/{provider}'')]
     = [(''callback_url'', ''{host}/OAuthLogin/{provider}''),
        (''authorization_url'', ''https://github.com/login/oauth/authorize''),
        (''token_url'', ''https://github.com/login/oauth/access_token'')]"
  by (simp add: template_entries_def dict_setdefault_def)

lemma substitute_github:
  "substitute_params oauth_env ''github''
     [(''host'', ''https://codechecker.example.com''), (''provider'', ''github'')] template_entries
   = Inr (True, substituted_params ''https://codechecker.example.com/login/OAuthLogin/github'')"
  using format_callback [of "''github''"]
  by (simp add: template_entries_def substituted_params_def oauth_env_format
      format_authorization format_token check_github del: py_format.simps)

lemma substitute_gitlab:
  "substitute_params oauth_env ''gitlab''
     [(''host'', ''https://codechecker.example.com''), (''provider'', ''gitlab'')]
     [(''callback_url'', ''{host}/OAuthLogin/{provider}''),
      (''authorization_url'', ''https://github.com/login/oauth/authorize''),
      (''token_url'', ''https://github.com/login/oauth/access_token'')]
   = Inr (False, substituted_params ''https://codechecker.example.com/OAuthLogin/gitlab'')"
  by (simp add: substituted_params_def oauth_env_format format_gitlab_callback
      format_authorization format_token check_gitlab del: py_format.simps)

lemma substitute_sso:
  "substitute_params oauth_env ''corp@sso''
     [(''host'', ''https://codechecker.example.com''), (''provider'', ''corp@sso'')] template_entries
   = Inr (False, substituted_params ''https://codechecker.example.com/login/OAuthLogin/corp@sso'')"
  using format_callback [of "''corp@sso''"]
  by (simp add: template_entries_def substituted_params_def oauth_env_format
      format_authorization format_token check_sso del: py_format.simps)

lemma apply_github:
  "apply_template oauth_env (shared_variables oauth_method) ''github'' github_provider
     = Inr (github_provider\<lparr>params :=
         substituted_params ''https://codechecker.example.com/login/OAuthLogin/github''\<rparr>)"
proof -
  have "params github_provider = []" "provider_enabled github_provider"
    "template github_provider = Some ''github/v1''"
    by (simp_all add: github_provider_def)
  moreover have "template_entries \<noteq> []" by (simp add: template_entries_def)
  ultimately show ?thesis
    unfolding apply_template_def github_variables
    by (simp add: oauth_env_template defaults_of_empty substitute_github
        del: substitute_params.simps)
qed

lemma apply_gitlab:
  "apply_template oauth_env (shared_variables oauth_method) ''gitlab'' gitlab_provider
     = Inr (gitlab_provider\<lparr>provider_enabled := False, params :=
         substituted_params ''https://codechecker.example.com/OAuthLogin/gitlab''\<rparr>)"
proof -
  have "params gitlab_provider = [(''callback_url'', ''{host}/OAuthLogin/{provider}'')]"
    "provider_enabled gitlab_provider" "template gitlab_provider = Some ''github/v1''"
    by (simp_all add: gitlab_provider_def)
  moreover have "template_entries \<noteq> []" by (simp add: template_entries_def)
  ultimately show ?thesis
    unfolding apply_template_def gitlab_variables
    by (simp add: oauth_env_template defaults_of_gitlab substitute_gitlab
        del: substitute_params.simps)
qed

lemma apply_sso:
  "apply_template oauth_env (shared_variables oauth_method) ''corp@sso'' sso_provider
     = Inr (sso_provider\<lparr>provider_enabled := False, params :=
         substituted_params ''https://codechecker.example.com/login/OAuthLogin/corp@sso''\<rparr>)"
proof -
  have "params sso_provider = []" "provider_enabled sso_provider"
    "template sso_provider = Some ''github/v1''"
    by (simp_all add: sso_provider_def)
  moreover have "template_entries \<noteq> []" by (simp add: template_entries_def)
  ultimately show ?thesis
    unfolding apply_template_def sso_variables
    by (simp add: oauth_env_template defaults_of_empty substitute_sso
        del: substitute_params.simps)
qed

lemma init_oauth_document:
  "SessionManager_init oauth_env oauth_document False alice_store = Inr oauth_manager"
proof -
  have templates: "oauth_apply_templates oauth_env oauth_auth_config
      = Inr (auth_cfg oauth_manager)"
    using apply_github apply_gitlab apply_sso
    by (simp add: oauth_apply_templates_def oauth_auth_config_def oauth_manager_def
        oauth_method_def)
  have "setup_oauth oauth_env oauth_auth_config = Inr (True, auth_cfg oauth_manager)"
    unfolding setup_oauth_def templates
    by (simp add: oauth_auth_config_def oauth_method_def oauth_manager_def
        oauth_providers_of_def github_provider_def)
  moreover have "demote_ldap oauth_env oauth_auth_config = (False, oauth_auth_config)"
    "demote_pam oauth_env oauth_auth_config = (False, oauth_auth_config)"
    by (simp_all add: demote_ldap_def demote_pam_def oauth_auth_config_def base_auth_config_def)
  ultimately have "find_auth_methods oauth_env False oauth_auth_config = Inr (auth_cfg oauth_manager)"
    by (simp add: find_auth_methods_def)
  moreover have "enabled oauth_auth_config = Some True" "regex_groups oauth_auth_config = None"
    "cfg_refresh_time oauth_auth_config = Some 60"
    by (simp_all add: oauth_auth_config_def base_auth_config_def)
  ultimately show ?thesis
    by (simp add: SessionManager_init_def get_config_dict_def is_empty_dict_def
        oauth_document_def oauth_manager_def)
qed

lemma listed_oauth_manager: "get_oauth_providers oauth_manager = [''github'']"
  by (simp add: get_oauth_providers_def oauth_providers_of_def oauth_manager_def
      github_provider_def)

text \<open>
  C6, as amended. A configured provider whose client secret or client id has
  the example value (\<^verbatim>\<open>ExampleClientSecret\<close>, \<^verbatim>\<open>ExampleClientID\<close>), or is absent,
  is turned off, whatever its \<^verbatim>\<open>enabled\<close> flag says, by the call of
  \<^verbatim>\<open>get_oauth_config\<close> that reads its configuration: the call returns the
  configuration with \<^verbatim>\<open>enabled\<close> false, and in the manager as the call leaves it
  \<^verbatim>\<open>get_oauth_providers\<close> does not list the provider.
\<close>

theorem get_oauth_config_disables_placeholder_provider:
  assumes keys: "distinct (map fst (oauth_providers_of (auth_cfg m)))"
    and p: "map_of (oauth_providers_of (auth_cfg m)) provider = Some p"
    and placeholder:
      "client_secret p = None \<or> client_secret p = Some ''ExampleClientSecret''
       \<or> client_id p = None \<or> client_id p = Some ''ExampleClientID''"
  shows "\<exists>m'. get_oauth_config m provider = Returns (Some (p\<lparr>provider_enabled := False\<rparr>)) m'
           \<and> provider \<notin> set (get_oauth_providers m')"
proof -
  obtain mo where mo: "method_oauth (auth_cfg m) = Some mo" and ps: "oauth_providers_of (auth_cfg m) = providers mo"
    using p by (cases "method_oauth (auth_cfg m)") (auto simp: oauth_providers_of_def)
  define m' where "m' = m\<lparr>auth_cfg := (auth_cfg m)\<lparr>method_oauth :=
        Some (mo\<lparr>providers := dict_set provider (p\<lparr>provider_enabled := False\<rparr>) (providers mo)\<rparr>)\<rparr>\<rparr>"
  have ps': "oauth_providers_of (auth_cfg m') = dict_set provider (p\<lparr>provider_enabled := False\<rparr>) (providers mo)"
    by (simp add: m'_def oauth_providers_of_def)
  have test: "(case client_secret p of None \<Rightarrow> True | Some v \<Rightarrow> v = ''ExampleClientSecret'')
            \<or> (case client_id p of None \<Rightarrow> True | Some v \<Rightarrow> v = ''ExampleClientID'')"
    using placeholder by (auto split: option.split)
  have "get_oauth_config m provider = Returns (Some (p\<lparr>provider_enabled := False\<rparr>)) m'"
    using p mo test ps' unfolding get_oauth_config_def Let_def
    by (simp add: m'_def [symmetric] map_of_dict_set_same)
  moreover have "provider \<notin> set (get_oauth_providers m')"
  proof
    assume "provider \<in> set (get_oauth_providers m')"
    then obtain x where in_list: "(provider, x) \<in> set (dict_set provider (p\<lparr>provider_enabled := False\<rparr>) (providers mo))"
      and on: "provider_enabled x"
      by (auto simp: get_oauth_providers_def ps')
    from keys p ps have "x = p\<lparr>provider_enabled := False\<rparr>"
      by (intro dict_set_entry [OF _ _ in_list]) auto
    with on show False by simp
  qed
  ultimately show ?thesis by blast
qed

theorem get_oauth_config_disables_placeholder_provider_witness:
  "distinct (map fst (oauth_providers_of (auth_cfg oauth_manager))) \<and>
   map_of (oauth_providers_of (auth_cfg oauth_manager)) ''github'' = Some github_entry \<and>
   client_secret github_entry = Some ''ExampleClientSecret'' \<and>
   get_oauth_providers oauth_manager = [''github''] \<and>
   (\<exists>m'. get_oauth_config oauth_manager ''github''
            = Returns (Some (github_entry\<lparr>provider_enabled := False\<rparr>)) m'
          \<and> ''github'' \<notin> set (get_oauth_providers m'))"
proof -
  have keys: "distinct (map fst (oauth_providers_of (auth_cfg oauth_manager)))"
    by (simp add: oauth_providers_of_def oauth_manager_def)
  have entry: "map_of (oauth_providers_of (auth_cfg oauth_manager)) ''github'' = Some github_entry"
    by (simp add: oauth_providers_of_def oauth_manager_def github_entry_def)
  have secret: "client_secret github_entry = Some ''ExampleClientSecret''"
    by (simp add: github_entry_def github_provider_def)
  then have placeholder: "client_secret github_entry = None
      \<or> client_secret github_entry = Some ''ExampleClientSecret''
      \<or> client_id github_entry = None \<or> client_id github_entry = Some ''ExampleClientID''"
    by simp
  from get_oauth_config_disables_placeholder_provider [OF keys entry placeholder]
    keys entry secret listed_oauth_manager
  show ?thesis by blast
qed

text \<open>
  C6, as stated, fails: the example values are looked at by \<^verbatim>\<open>get_oauth_config\<close>
  only. After the construction of the manager the provider \<^verbatim>\<open>github\<close>, which has
  \<^verbatim>\<open>enabled: true\<close> and both example values, is listed by
  \<^verbatim>\<open>get_oauth_providers\<close>.
\<close>

theorem placeholder_provider_is_listed:
  "SessionManager_init oauth_env oauth_document False alice_store = Inr oauth_manager \<and>
   map_of (providers oauth_method) ''github'' = Some github_provider \<and>
   provider_enabled github_provider \<and>
   client_id github_provider = Some ''ExampleClientID'' \<and>
   client_secret github_provider = Some ''ExampleClientSecret'' \<and>
   get_oauth_providers oauth_manager = [''github'']"
proof (intro conjI)
  show "SessionManager_init oauth_env oauth_document False alice_store = Inr oauth_manager"
    by (rule init_oauth_document)
  show "map_of (providers oauth_method) ''github'' = Some github_provider"
    by (simp add: oauth_method_def)
  show "provider_enabled github_provider"
    "client_id github_provider = Some ''ExampleClientID''"
    "client_secret github_provider = Some ''ExampleClientSecret''"
    by (simp_all add: github_provider_def)
  show "get_oauth_providers oauth_manager = [''github'']"
    by (rule listed_oauth_manager)
qed

text \<open>
  What the configuration-time pass does ensure: at the construction of the
  manager, with authentication and the OAuth method enabled, a processed
  provider for whose substituted \<^verbatim>\<open>callback_url\<close> the call of
  \<^verbatim>\<open>check_callback_url_format\<close> does not return \<^verbatim>\<open>True\<close> is not listed by
  \<^verbatim>\<open>get_oauth_providers\<close>, and the entry of every other provider is what the
  processing of that provider alone gives.
\<close>

lemma failed_check_disables_provider:
  assumes init: "SessionManager_init env loaded force_auth db = Inr m"
    and auth: "authentication loaded = Some cfg"
    and enabled: "force_auth \<or> enabled cfg = Some True"
    and oauth: "method_oauth cfg = Some mo"
    and on: "oauth_enabled mo"
    and keys: "distinct (map fst (providers mo))"
    and p: "map_of (providers mo) name = Some p"
    and processed: "provider_enabled p" "template p = Some t" "t \<noteq> ''default''"
      "OAUTH_TEMPLATES env t = Some defaults" "defaults \<noteq> []"
    and raw: "map_of (dict_setdefaults defaults (params p)) ''callback_url'' = Some raw"
    and url: "str_format env raw (provider_variables (shared_variables mo) name p) = Formatted url"
    and failed: "check_callback_url_format env name url \<noteq> Inr (Some True)"
  shows "name \<notin> set (get_oauth_providers m) \<and>
         (\<forall>other p0. other \<noteq> name \<longrightarrow> map_of (providers mo) other = Some p0 \<longrightarrow>
            (\<exists>p1. apply_template env (shared_variables mo) other p0 = Inr p1 \<and>
                  map_of (oauth_providers_of (auth_cfg m)) other = Some p1))"
proof
  have applied: "apply_templates env (shared_variables mo) (providers mo)
      = Inr (oauth_providers_of (auth_cfg m))"
    using init auth enabled oauth on by (rule init_applies_templates)
  show "name \<notin> set (get_oauth_providers m)"
  proof
    assume "name \<in> set (get_oauth_providers m)"
    then obtain x where x: "(name, x) \<in> set (oauth_providers_of (auth_cfg m))"
      and x_on: "provider_enabled x"
      by (auto simp: get_oauth_providers_def)
    from apply_templates_entry [OF applied x] obtain p0 where
      p0: "(name, p0) \<in> set (providers mo)"
      and result: "apply_template env (shared_variables mo) name p0 = Inr x"
      by blast
    from keys p0 p have "p0 = p" by (simp add: map_of_eq_Some_iff)
    with result processed obtain ok ps' where
      subst: "substitute_params env name (provider_variables (shared_variables mo) name p)
          (dict_setdefaults defaults (params p)) = Inr (ok, ps')"
      and x_eq: "x = p\<lparr>provider_enabled := ok, params := ps'\<rparr>"
      by (auto simp: apply_template_def Let_def split: sum.splits)
    from raw have "(''callback_url'', raw) \<in> set (dict_setdefaults defaults (params p))"
      by (rule map_of_SomeD)
    from substitute_params_callback [OF subst this url failed] have "\<not> ok" .
    with x_eq x_on show False by simp
  qed
  show "\<forall>other p0. other \<noteq> name \<longrightarrow> map_of (providers mo) other = Some p0 \<longrightarrow>
            (\<exists>p1. apply_template env (shared_variables mo) other p0 = Inr p1 \<and>
                  map_of (oauth_providers_of (auth_cfg m)) other = Some p1)"
    using apply_templates_map_of [OF applied] by blast
qed

text \<open>The construction of the manager on the document whose provider has a host
  with a path.\<close>

lemma path_variables:
  "provider_variables (shared_variables path_method) ''github'' path_provider
     = [(''host'', ''https://evil.example.com/any/path''), (''provider'', ''github'')]"
  by (simp add: provider_variables_def path_method_def path_provider_def)

lemma format_path_callback:
  "py_format [(''host'', ''https://evil.example.com/any/path''), (''provider'', ''github'')] None
     ''{host}/login/OAuthLogin/{provider}''
   = Formatted ''https://evil.example.com/any/path/login/OAuthLogin/github''"
  by simp

lemma substitute_path:
  "substitute_params oauth_env ''github''
     [(''host'', ''https://evil.example.com/any/path''), (''provider'', ''github'')] template_entries
   = Inr (True, substituted_params ''https://evil.example.com/any/path/login/OAuthLogin/github'')"
  by (simp add: template_entries_def substituted_params_def oauth_env_format format_path_callback
      format_authorization format_token check_path del: py_format.simps)

lemma apply_path:
  "apply_template oauth_env (shared_variables path_method) ''github'' path_provider
     = Inr (path_provider\<lparr>params :=
         substituted_params ''https://evil.example.com/any/path/login/OAuthLogin/github''\<rparr>)"
proof -
  have "params path_provider = []" "provider_enabled path_provider"
    "template path_provider = Some ''github/v1''"
    by (simp_all add: path_provider_def)
  moreover have "template_entries \<noteq> []" by (simp add: template_entries_def)
  ultimately show ?thesis
    unfolding apply_template_def path_variables
    by (simp add: oauth_env_template defaults_of_empty substitute_path
        del: substitute_params.simps)
qed

lemma init_path_document:
  "SessionManager_init oauth_env path_document False alice_store = Inr path_manager"
proof -
  define cfg where "cfg = base_auth_config\<lparr>method_oauth := Some path_method\<rparr>"
  have templates: "oauth_apply_templates oauth_env cfg = Inr (auth_cfg path_manager)"
    using apply_path
    by (simp add: oauth_apply_templates_def cfg_def path_manager_def path_method_def)
  have "setup_oauth oauth_env cfg = Inr (True, auth_cfg path_manager)"
    unfolding setup_oauth_def templates
    by (simp add: cfg_def path_method_def path_manager_def oauth_providers_of_def
        path_provider_def)
  moreover have "demote_ldap oauth_env cfg = (False, cfg)"
    "demote_pam oauth_env cfg = (False, cfg)"
    by (simp_all add: demote_ldap_def demote_pam_def cfg_def base_auth_config_def)
  ultimately have "find_auth_methods oauth_env False cfg = Inr (auth_cfg path_manager)"
    by (simp add: find_auth_methods_def cfg_def base_auth_config_def)
  moreover have "enabled cfg = Some True" "regex_groups cfg = None"
    "cfg_refresh_time cfg = Some 60"
    by (simp_all add: cfg_def base_auth_config_def)
  ultimately show ?thesis
    by (simp add: SessionManager_init_def get_config_dict_def is_empty_dict_def
        path_document_def path_manager_def cfg_def [symmetric])
qed

text \<open>
  C7 does not hold of the pattern that the code compiles. The callback URL
  \<^verbatim>\<open>https://evil.example.com/any/path/login/OAuthLogin/github\<close> does not match
  the required pattern, since \<^verbatim>\<open>evil.example.com/any/path\<close> is no
  \<^verbatim>\<open>host[:port]\<close>; but in the character class of the code \<^verbatim>\<open>.-_\<close> is a range
  that holds \<^verbatim>\<open>/\<close>, so that \<^verbatim>\<open>check_callback_url_format\<close> returns \<^verbatim>\<open>True\<close>, and
  the provider, whose substituted callback URL this is, stays enabled at the
  construction of the manager and is listed by \<^verbatim>\<open>get_oauth_providers\<close>.
\<close>

theorem lax_callback_url_pattern_keeps_provider:
  "\<not> specified_callback_url_matches ''github''
       ''https://evil.example.com/any/path/login/OAuthLogin/github'' \<and>
   check_callback_url_format oauth_env ''github''
       ''https://evil.example.com/any/path/login/OAuthLogin/github'' = Inr (Some True) \<and>
   SessionManager_init oauth_env path_document False alice_store = Inr path_manager \<and>
   map_of (oauth_providers_of (auth_cfg path_manager)) ''github''
     = Some (path_provider\<lparr>params :=
         substituted_params ''https://evil.example.com/any/path/login/OAuthLogin/github''\<rparr>) \<and>
   get_oauth_providers path_manager = [''github'']"
proof (intro conjI)
  show "\<not> specified_callback_url_matches ''github''
       ''https://evil.example.com/any/path/login/OAuthLogin/github''"
    by code_simp
  show "check_callback_url_format oauth_env ''github''
       ''https://evil.example.com/any/path/login/OAuthLogin/github'' = Inr (Some True)"
    by (rule check_path)
  show "SessionManager_init oauth_env path_document False alice_store = Inr path_manager"
    by (rule init_path_document)
  show "map_of (oauth_providers_of (auth_cfg path_manager)) ''github''
     = Some (path_provider\<lparr>params :=
         substituted_params ''https://evil.example.com/any/path/login/OAuthLogin/github''\<rparr>)"
    by (simp add: oauth_providers_of_def path_manager_def)
  show "get_oauth_providers path_manager = [''github'']"
    by (simp add: get_oauth_providers_def oauth_providers_of_def path_manager_def
        path_provider_def)
qed

subsection \<open>Reload of the configuration\<close>

text \<open>
  C8. When the configuration source yields the empty document (an empty file or
  one that cannot be parsed), \<^verbatim>\<open>reload_config\<close> returns normally, the
  \<^verbatim>\<open>ValueError\<close> having been caught and logged, and the manager is exactly as it
  was: \<^verbatim>\<open>max_run_count\<close>, the \<^verbatim>\<open>store\<close> block, \<^verbatim>\<open>session_lifetime\<close>,
  \<^verbatim>\<open>refresh_time\<close>, \<^verbatim>\<open>logins_until_cleanup\<close> and every cached session.
\<close>

theorem reload_config_empty_document:
  "is_empty_dict loaded \<Longrightarrow> reload_config m loaded = Returns () m"
  by (simp add: reload_config_def get_config_dict_def)

theorem reload_config_empty_document_witness:
  "is_empty_dict empty_dict \<and>
   reload_config base_manager empty_dict = Returns () base_manager \<and>
   reload_config base_manager changed_document
     = Returns () (base_manager\<lparr>max_run_count := Some 10,
          auth_cfg := base_auth_config\<lparr>cfg_session_lifetime := Some 600\<rparr>,
          sessions := [alice_session\<lparr>session_lifetime := 600, refresh_time := Some 60\<rparr>]\<rparr>)"
proof -
  have empty: "is_empty_dict empty_dict"
    by (simp add: is_empty_dict_def empty_dict_def)
  have changed: "reload_config base_manager changed_document
     = Returns () (base_manager\<lparr>max_run_count := Some 10,
          auth_cfg := base_auth_config\<lparr>cfg_session_lifetime := Some 600\<rparr>,
          sessions := [alice_session\<lparr>session_lifetime := 600, refresh_time := Some 60\<rparr>]\<rparr>)"
    by (simp add: reload_config_def get_config_dict_def is_empty_dict_def changed_document_def
        base_manager_def base_auth_config_def reload_auth_fields_def reload_field_def
        empty_store_block_def Let_def)
  from reload_config_empty_document [OF empty, of base_manager] empty changed
  show ?thesis by blast
qed

subsection \<open>The dictionary backend\<close>

lemma split_spec_entry: "py_split (CHR '':'') 3 spec_entry =
   [''alice'', ''5e884898da28047151d0e56f8dc6292773603d0d6aabbdd62a11ef721d1542d'', ''sha256'']"
  by (simp add: spec_entry_def numeral_3_eq_3)

lemma split_full_entry: "py_split (CHR '':'') 3 full_entry = [''alice'', password_digest, ''sha256'']"
  by (simp add: full_entry_def password_digest_def numeral_3_eq_3)

lemma head_spec_entry: "hd (py_split (CHR '':'') (Suc 0) spec_entry) = ''alice''"
  by (simp add: spec_entry_def)

lemma head_full_entry: "hd (py_split (CHR '':'') (Suc 0) full_entry) = ''alice''"
  by (simp add: full_entry_def)

lemma split_alice_credential: "py_split (CHR '':'') (Suc 0) (''alice:'' @ pw) = [''alice'', pw]"
  by simp

lemma full_entry_eq: "full_entry = ''alice:'' @ pw \<longleftrightarrow> pw = password_digest @ '':sha256''"
  by (auto simp add: full_entry_def password_digest_def)

lemma dictionary_entry_decides:
  assumes "''dictionary'' \<notin> set (UNSUPPORTED_METHODS env)"
    and sp: "py_split (CHR '':'') (Suc 0) cred = [''alice'', pw]"
    and eq: "(full_entry = cred) = (pw = password_digest @ '':sha256'')"
  shows "try_auth_dictionary env (dictionary_manager full_entry) cred
           = (if sha256_hexdigest pw = password_digest \<or> pw = password_digest @ '':sha256''
              then Inr (Validated \<lparr> username = ''alice'', validation_groups = Some [] \<rparr>,
                        dictionary_manager full_entry)
              else Inr (Rejected, dictionary_manager full_entry))"
  using assms(1)
  by (auto simp add: try_auth_dictionary_def dictionary_manager_def base_auth_config_def
        is_method_enabled_def method_flag_def head_full_entry split_full_entry hashlib_def
        dictionary_accept_def update_personal_access_token_groups_def Let_def sp eq
        simp del: py_split.simps)

text \<open>
  C9, as amended. With the dictionary backend enabled and holding exactly the entry
  \<^verbatim>\<open>alice:<digest>:sha256\<close>, where the digest is the 64-digit SHA-256 digest of
  \<^verbatim>\<open>password\<close>, the credential \<^verbatim>\<open>alice:password\<close> is accepted; and a credential
  \<^verbatim>\<open>alice:pw\<close> is accepted exactly when the SHA-256 digest of \<open>pw\<close> is the stored
  digest or the credential is the stored entry itself, and is rejected otherwise.
\<close>

theorem dictionary_sha256_entry:
  assumes "''dictionary'' \<notin> set (UNSUPPORTED_METHODS env)"
  shows "try_auth_dictionary env (dictionary_manager full_entry) ''alice:password''
           = Inr (Validated \<lparr> username = ''alice'', validation_groups = Some [] \<rparr>,
                  dictionary_manager full_entry)
         \<and>
         try_auth_dictionary env (dictionary_manager full_entry) (''alice:'' @ pw)
           = (if sha256_hexdigest pw = password_digest \<or> pw = password_digest @ '':sha256''
              then Inr (Validated \<lparr> username = ''alice'', validation_groups = Some [] \<rparr>,
                        dictionary_manager full_entry)
              else Inr (Rejected, dictionary_manager full_entry))"
proof
  have "py_split (CHR '':'') (Suc 0) ''alice:password'' = [''alice'', ''password'']" by simp
  moreover have "(full_entry = ''alice:password'') = (''password'' = password_digest @ '':sha256'')"
    by (simp add: full_entry_def password_digest_def)
  ultimately show "try_auth_dictionary env (dictionary_manager full_entry) ''alice:password''
           = Inr (Validated \<lparr> username = ''alice'', validation_groups = Some [] \<rparr>,
                  dictionary_manager full_entry)"
    using dictionary_entry_decides [OF assms, of "''alice:password''" "''password''"] sha256_password
    by (simp only: if_True simp_thms)
next
  have "py_split (CHR '':'') (Suc 0) (''alice:'' @ pw) = [''alice'', pw]" by simp
  moreover have "(full_entry = ''alice:'' @ pw) = (pw = password_digest @ '':sha256'')"
    by (auto simp add: full_entry_def password_digest_def)
  ultimately show "try_auth_dictionary env (dictionary_manager full_entry) (''alice:'' @ pw)
           = (if sha256_hexdigest pw = password_digest \<or> pw = password_digest @ '':sha256''
              then Inr (Validated \<lparr> username = ''alice'', validation_groups = Some [] \<rparr>,
                        dictionary_manager full_entry)
              else Inr (Rejected, dictionary_manager full_entry))"
    by (rule dictionary_entry_decides [OF assms])
qed

theorem dictionary_sha256_entry_witness:
  "''dictionary'' \<notin> set (UNSUPPORTED_METHODS plain_env) \<and>
   try_auth_dictionary plain_env (dictionary_manager full_entry) ''alice:password''
     = Inr (Validated \<lparr> username = ''alice'', validation_groups = Some [] \<rparr>,
            dictionary_manager full_entry) \<and>
   try_auth_dictionary plain_env (dictionary_manager full_entry) (''alice:'' @ password_digest @ '':sha256'')
     = Inr (Validated \<lparr> username = ''alice'', validation_groups = Some [] \<rparr>,
            dictionary_manager full_entry)"
proof -
  have lib: "''dictionary'' \<notin> set (UNSUPPORTED_METHODS plain_env)"
    by (simp add: plain_env_def)
  from dictionary_sha256_entry [OF lib, of "password_digest @ '':sha256''"] lib
  show ?thesis by simp
qed

text \<open>
  C9, as stated, fails: the digest of the entry that the specification prints
  has 63 digits, so that \<^verbatim>\<open>alice:password\<close> is rejected under it; and the
  credential that repeats the entry, whose password is not \<^verbatim>\<open>password\<close>, is
  accepted.
\<close>

theorem spec_entry_rejects_password:
  "create_session plain_env 150 ''00112233445566778899aabbccddeeff'' (dictionary_manager spec_entry)
      ''alice:password''
     = Returns PyFalse ((dictionary_manager spec_entry)\<lparr>logins_since_prune := 1\<rparr>) \<and>
   try_auth_dictionary plain_env (dictionary_manager spec_entry) spec_entry
     = Inr (Validated \<lparr> username = ''alice'', validation_groups = Some [] \<rparr>,
            dictionary_manager spec_entry)"
proof
  have "py_split (CHR '':'') (Suc 0) ''alice:password'' = [''alice'', ''password'']" by simp
  moreover have "spec_entry \<noteq> ''alice:password''" by (simp add: spec_entry_def)
  ultimately show "create_session plain_env 150 ''00112233445566778899aabbccddeeff'' (dictionary_manager spec_entry)
      ''alice:password''
     = Returns PyFalse ((dictionary_manager spec_entry)\<lparr>logins_since_prune := 1\<rparr>)"
    using sha256_password
    by (simp add: create_session_def handle_validation_def or_else_def try_auth_token_def
        try_personal_access_token_def try_auth_pam_def try_auth_ldap_def
        try_auth_dictionary_def dictionary_manager_def base_auth_config_def
        is_method_enabled_def method_flag_def head_spec_entry split_spec_entry hashlib_def
        plain_env_def password_digest_def Let_def
        del: py_split.simps)
next
  show "try_auth_dictionary plain_env (dictionary_manager spec_entry) spec_entry
     = Inr (Validated \<lparr> username = ''alice'', validation_groups = Some [] \<rparr>,
            dictionary_manager spec_entry)"
    by (simp add: try_auth_dictionary_def dictionary_manager_def base_auth_config_def
        is_method_enabled_def method_flag_def head_spec_entry
        plain_env_def Let_def dictionary_accept_def update_personal_access_token_groups_def
        del: py_split.simps)
qed

subsection \<open>Lookup of a session when authentication is off\<close>

text \<open>
  C10. When authentication is not enabled, \<^verbatim>\<open>get_session\<close> returns \<^verbatim>\<open>None\<close> for
  every token and leaves the manager as it is: the cache and the persisted store
  are neither searched nor changed, and nothing is invalidated.
\<close>

theorem get_session_disabled:
  "\<not> is_enabled m \<Longrightarrow> get_session now m tok = Returns PyNone m"
  by (simp add: get_session_def)

theorem get_session_disabled_witness:
  "\<not> is_enabled disabled_manager \<and>
   list_ex (\<lambda>s. token s = ''0123456789abcdef0123456789abcdef'' \<and> is_alive 150 s)
     (sessions disabled_manager) \<and>
   get_session 150 disabled_manager ''0123456789abcdef0123456789abcdef''
     = Returns PyNone disabled_manager \<and>
   get_session 150 base_manager ''0123456789abcdef0123456789abcdef''
     = Returns (TheSession alice_session) base_manager"
proof -
  have off: "\<not> is_enabled disabled_manager"
    by (simp add: is_enabled_def disabled_manager_def base_manager_def base_auth_config_def)
  have cached: "list_ex (\<lambda>s. token s = ''0123456789abcdef0123456789abcdef'' \<and> is_alive 150 s)
      (sessions disabled_manager)"
    by (simp add: disabled_manager_def base_manager_def alice_session_def is_alive_def)
  have on: "get_session 150 base_manager ''0123456789abcdef0123456789abcdef''
      = Returns (TheSession alice_session) base_manager"
    by (simp add: get_session_def is_enabled_def base_manager_def base_auth_config_def
        alice_session_def is_alive_def is_refresh_time_expire_def Let_def)
  from get_session_disabled [OF off, of 150 "''0123456789abcdef0123456789abcdef''"] off cached on
  show ?thesis by blast
qed

end
